theory Spec2Isabelle
  imports Main "HOL-Library.Multiset"
begin

section \<open>Strings of the Go standard library\<close>

text \<open>
  A Go string is a sequence of bytes, here a \<open>char list\<close>.  The functions of the
  packages \<open>strings\<close> and \<open>unicode/utf8\<close> that the program calls are written out on
  bytes.
\<close>

abbreviation nl :: char where
  "nl \<equiv> CHR 0x0A"

abbreviation cr :: char where
  "cr \<equiv> CHR 0x0D"

text \<open>\<open>strings.Split(s, sep)\<close> for a separator of one byte: one piece more than there
  are separators, empty pieces kept.\<close>

fun strings_Split :: "string \<Rightarrow> char \<Rightarrow> string list" where
  "strings_Split [] c = [[]]"
| "strings_Split (x # xs) c =
     (if x = c then [] # strings_Split xs c
      else (case strings_Split xs c of
              [] \<Rightarrow> [[x]]
            | piece # pieces \<Rightarrow> (x # piece) # pieces))"

text \<open>\<open>strings.Join(elems, sep)\<close>.\<close>

fun strings_Join :: "string list \<Rightarrow> string \<Rightarrow> string" where
  "strings_Join [] sep = []"
| "strings_Join [x] sep = x"
| "strings_Join (x # y # ys) sep = x @ sep @ strings_Join (y # ys) sep"

definition strings_HasPrefix :: "string \<Rightarrow> string \<Rightarrow> bool" where
  "strings_HasPrefix s p \<longleftrightarrow> take (length p) s = p"

definition strings_TrimPrefix :: "string \<Rightarrow> string \<Rightarrow> string" where
  "strings_TrimPrefix s p = (if strings_HasPrefix s p then drop (length p) s else s)"

text \<open>\<open>strings.Contains(s, substr)\<close>: \<open>substr\<close> starts at some position of \<open>s\<close>.\<close>

fun strings_Contains :: "string \<Rightarrow> string \<Rightarrow> bool" where
  "strings_Contains [] sub = (sub = [])"
| "strings_Contains (x # xs) sub =
     (strings_HasPrefix (x # xs) sub \<or> strings_Contains xs sub)"

subsection \<open>White space\<close>

text \<open>
  \<open>strings.TrimSpace\<close> removes the leading and the trailing white space of a string,
  as \<open>unicode.IsSpace\<close> defines it on the code points that the string encodes in
  UTF-8: U+0009 to U+000D, U+0020, U+0085, U+00A0, U+1680, U+2000 to U+200A, U+2028,
  U+2029, U+202F, U+205F and U+3000.  A byte that does not begin a valid encoding
  decodes to U+FFFD, which is no white space.

  \<open>spaceWidth s\<close> is the number of bytes of the white space code point encoded at the
  head of \<open>s\<close>, and 0 where there is none.
\<close>

definition isAsciiSpace :: "nat \<Rightarrow> bool" where
  "isAsciiSpace x \<longleftrightarrow> x = 0x09 \<or> x = 0x0A \<or> x = 0x0B \<or> x = 0x0C \<or> x = 0x0D \<or> x = 0x20"

fun spaceWidth :: "string \<Rightarrow> nat" where
  "spaceWidth [] = 0"
| "spaceWidth (b0 # rest) =
     (let x = (of_char b0 :: nat) in
      if isAsciiSpace x then 1
      else if x = 0xC2 then
        (case rest of
           b1 # _ \<Rightarrow> if of_char b1 = (0x85::nat) \<or> of_char b1 = (0xA0::nat) then 2 else 0
         | [] \<Rightarrow> 0)
      else if x = 0xE1 \<or> x = 0xE2 \<or> x = 0xE3 then
        (case rest of
           b1 # b2 # _ \<Rightarrow>
             (let y = (of_char b1 :: nat); z = (of_char b2 :: nat) in
              if (x = 0xE1 \<and> y = 0x9A \<and> z = 0x80)
                 \<or> (x = 0xE2 \<and> y = 0x80
                      \<and> ((0x80 \<le> z \<and> z \<le> 0x8A) \<or> z = 0xA8 \<or> z = 0xA9 \<or> z = 0xAF))
                 \<or> (x = 0xE2 \<and> y = 0x81 \<and> z = 0x9F)
                 \<or> (x = 0xE3 \<and> y = 0x80 \<and> z = 0x80)
              then 3 else 0)
         | _ \<Rightarrow> 0)
      else 0)"

text \<open>The same for the code point that ends a string, which is found from the end
  (\<open>utf8.DecodeLastRuneInString\<close>): the argument is the string reversed, and the
  encodings are read backwards.\<close>

fun lastSpaceWidth :: "string \<Rightarrow> nat" where
  "lastSpaceWidth [] = 0"
| "lastSpaceWidth (b # before) =
     (let z = (of_char b :: nat) in
      if isAsciiSpace z then 1
      else (case before of
              [] \<Rightarrow> 0
            | b1 # before1 \<Rightarrow>
                (let y = (of_char b1 :: nat) in
                 if y = 0xC2 then (if z = 0x85 \<or> z = 0xA0 then 2 else 0)
                 else (case before1 of
                         [] \<Rightarrow> 0
                       | b2 # _ \<Rightarrow>
                           (let x = (of_char b2 :: nat) in
                            if (x = 0xE1 \<and> y = 0x9A \<and> z = 0x80)
                               \<or> (x = 0xE2 \<and> y = 0x80
                                    \<and> ((0x80 \<le> z \<and> z \<le> 0x8A) \<or> z = 0xA8 \<or> z = 0xA9
                                         \<or> z = 0xAF))
                               \<or> (x = 0xE2 \<and> y = 0x81 \<and> z = 0x9F)
                               \<or> (x = 0xE3 \<and> y = 0x80 \<and> z = 0x80)
                            then 3 else 0)))))"

text \<open>Removing white space from the head for as long as there is some; the first
  argument counts the bytes of the current code point that are still to be removed.\<close>

fun trimLoop :: "(string \<Rightarrow> nat) \<Rightarrow> nat \<Rightarrow> string \<Rightarrow> string" where
  "trimLoop width k [] = []"
| "trimLoop width (Suc k) (c # cs) = trimLoop width k cs"
| "trimLoop width 0 (c # cs) =
     (case width (c # cs) of
        0 \<Rightarrow> c # cs
      | Suc n \<Rightarrow> trimLoop width n cs)"

definition strings_TrimSpace :: "string \<Rightarrow> string" where
  "strings_TrimSpace s =
     rev (trimLoop lastSpaceWidth 0 (rev (trimLoop spaceWidth 0 s)))"

subsection \<open>UTF-8\<close>

text \<open>
  \<open>runeSize\<close> is the number of bytes of the encoding at the head of a string, or 0
  where \<open>utf8.DecodeRuneInString\<close> reports an error of width 1: at a byte that cannot
  begin an encoding, at an encoding that is cut short, too long for its code point,
  of a surrogate or beyond U+10FFFF.
\<close>

definition byteIn :: "nat \<Rightarrow> nat \<Rightarrow> char \<Rightarrow> bool" where
  "byteIn lo hi c \<longleftrightarrow> lo \<le> of_char c \<and> of_char c \<le> hi"

fun runeSize :: "string \<Rightarrow> nat" where
  "runeSize [] = 0"
| "runeSize (b0 # rest) =
     (let x = (of_char b0 :: nat) in
      if x < 0x80 then 1
      else if 0xC2 \<le> x \<and> x \<le> 0xDF then
        (case rest of
           b1 # _ \<Rightarrow> if byteIn 0x80 0xBF b1 then 2 else 0
         | _ \<Rightarrow> 0)
      else if 0xE0 \<le> x \<and> x \<le> 0xEF then
        (case rest of
           b1 # b2 # _ \<Rightarrow>
             if byteIn (if x = 0xE0 then 0xA0 else 0x80) (if x = 0xED then 0x9F else 0xBF) b1
                \<and> byteIn 0x80 0xBF b2
             then 3 else 0
         | _ \<Rightarrow> 0)
      else if 0xF0 \<le> x \<and> x \<le> 0xF4 then
        (case rest of
           b1 # b2 # b3 # _ \<Rightarrow>
             if byteIn (if x = 0xF0 then 0x90 else 0x80) (if x = 0xF4 then 0x8F else 0xBF) b1
                \<and> byteIn 0x80 0xBF b2 \<and> byteIn 0x80 0xBF b3
             then 4 else 0
         | _ \<Rightarrow> 0)
      else 0)"

text \<open>\<open>utf8.ValidString\<close>.  The first argument counts the bytes of the current encoding
  that are still to be passed over.\<close>

fun validLoop :: "nat \<Rightarrow> string \<Rightarrow> bool" where
  "validLoop k [] = True"
| "validLoop (Suc k) (c # cs) = validLoop k cs"
| "validLoop 0 (c # cs) =
     (case runeSize (c # cs) of 0 \<Rightarrow> False | Suc n \<Rightarrow> validLoop n cs)"

definition utf8_ValidString :: "string \<Rightarrow> bool" where
  "utf8_ValidString s = validLoop 0 s"

text \<open>The code point of the encoding at the head of a string that \<open>runeSize\<close> accepts,
  and U+FFFD elsewhere.\<close>

definition RuneError :: nat where
  "RuneError = 0xFFFD"

fun runeValue :: "string \<Rightarrow> nat" where
  "runeValue s =
     (case (runeSize s, s) of
        (Suc 0, b0 # _) \<Rightarrow> of_char b0
      | (Suc (Suc 0), b0 # b1 # _) \<Rightarrow> (of_char b0 - 0xC0) * 64 + (of_char b1 - 0x80)
      | (Suc (Suc (Suc 0)), b0 # b1 # b2 # _) \<Rightarrow>
          (of_char b0 - 0xE0) * 4096 + (of_char b1 - 0x80) * 64 + (of_char b2 - 0x80)
      | (Suc (Suc (Suc (Suc 0))), b0 # b1 # b2 # b3 # _) \<Rightarrow>
          (of_char b0 - 0xF0) * 262144 + (of_char b1 - 0x80) * 4096
            + (of_char b2 - 0x80) * 64 + (of_char b3 - 0x80)
      | _ \<Rightarrow> RuneError)"

text \<open>The code points of a string in order, as \<open>range\<close> over a string gives them.\<close>

fun runesLoop :: "nat \<Rightarrow> string \<Rightarrow> nat list" where
  "runesLoop k [] = []"
| "runesLoop (Suc k) (c # cs) = runesLoop k cs"
| "runesLoop 0 (c # cs) =
     (case runeSize (c # cs) of
        0 \<Rightarrow> RuneError # runesLoop 0 cs
      | Suc n \<Rightarrow> runeValue (c # cs) # runesLoop n cs)"

text \<open>\<open>utf8.AppendRune\<close>: the encoding of a code point; a surrogate or a value beyond
  U+10FFFF is written as U+FFFD.\<close>

definition encodeRune :: "nat \<Rightarrow> string" where
  "encodeRune r =
     (if r \<le> 0x7F then [char_of r]
      else if r \<le> 0x7FF then [char_of (0xC0 + r div 64), char_of (0x80 + r mod 64)]
      else if r > 0x10FFFF \<or> (0xD800 \<le> r \<and> r \<le> 0xDFFF) then [CHR 0xEF, CHR 0xBF, CHR 0xBD]
      else if r \<le> 0xFFFF then
        [char_of (0xE0 + r div 4096), char_of (0x80 + (r div 64) mod 64),
         char_of (0x80 + r mod 64)]
      else
        [char_of (0xF0 + r div 262144), char_of (0x80 + (r div 4096) mod 64),
         char_of (0x80 + (r div 64) mod 64), char_of (0x80 + r mod 64)])"

subsection \<open>Lower case\<close>

text \<open>
  \<open>strings.ToLower\<close>.  A string of ASCII bytes has its letters \<open>A\<close> to \<open>Z\<close> replaced
  by \<open>a\<close> to \<open>z\<close>.  Any other string is decoded, every code point is mapped by
  \<open>unicode.ToLower\<close> and the results are encoded again; there a byte that is not part
  of a valid encoding comes out as U+FFFD.  The case tables of package \<open>unicode\<close> are
  not written out: \<open>lowerTable\<close> stands for \<open>unicode.ToLower\<close> on the code points beyond
  ASCII.
\<close>

definition toLowerByte :: "char \<Rightarrow> char" where
  "toLowerByte c =
     (if (65::nat) \<le> of_char c \<and> of_char c \<le> (90::nat)
      then char_of (of_char c + (32::nat)) else c)"

definition unicode_ToLower :: "(nat \<Rightarrow> nat) \<Rightarrow> nat \<Rightarrow> nat" where
  "unicode_ToLower lowerTable r =
     (if r \<le> 0x7F then (if 65 \<le> r \<and> r \<le> 90 then r + 32 else r) else lowerTable r)"

definition strings_ToLower :: "(nat \<Rightarrow> nat) \<Rightarrow> string \<Rightarrow> string" where
  "strings_ToLower lowerTable s =
     (if list_all (\<lambda>c. (of_char c :: nat) < 0x80) s then map toLowerByte s
      else concat (map (\<lambda>r. encodeRune (unicode_ToLower lowerTable r)) (runesLoop 0 s)))"

section \<open>Front matter\<close>

text \<open>The loop of \<open>stripFrontmatter\<close> over \<open>lines[1:]\<close>: at the first line that trims
  to \<open>---\<close> it returns the lines after it, joined by line feeds.\<close>

fun closingLoop :: "string list \<Rightarrow> string option" where
  "closingLoop [] = None"
| "closingLoop (l # ls) =
     (if strings_TrimSpace l = ''---'' then Some (strings_Join ls [nl])
      else closingLoop ls)"

definition stripFrontmatter :: "string \<Rightarrow> string" where
  "stripFrontmatter content =
     (if \<not> strings_HasPrefix content (''---'' @ [nl])
         \<and> \<not> strings_HasPrefix content (''---'' @ [cr, nl])
      then content
      else let lines = strings_Split content nl in
        if length lines < 3 then content
        else (case closingLoop (drop 1 lines) of
                Some r \<Rightarrow> r
              | None \<Rightarrow> content))"

text \<open>The behaviour of \<open>stripFrontmatter\<close> as it is described: the content is returned
  as it is unless it begins with a \<open>---\<close> delimiter line and some later line trims to
  \<open>---\<close>; then the lines after the first such line are returned, joined by line feeds.\<close>

definition stripFrontmatter_described :: "string \<Rightarrow> string" where
  "stripFrontmatter_described content =
     (let lines = strings_Split content nl;
          rest = dropWhile (\<lambda>l. strings_TrimSpace l \<noteq> ''---'') (drop 1 lines)
      in if (strings_HasPrefix content (''---'' @ [nl])
             \<or> strings_HasPrefix content (''---'' @ [cr, nl])) \<and> rest \<noteq> []
         then strings_Join (tl rest) [nl]
         else content)"

section \<open>Overview paragraph\<close>

text \<open>The loop of \<open>extractOverviewParagraph\<close> over the lines, with its two variables
  \<open>foundOverview\<close> and \<open>paragraphLines\<close>; \<open>continue\<close> goes on with the next line and
  \<open>break\<close> returns the lines collected so far.\<close>

fun overviewLoop :: "string list \<Rightarrow> bool \<Rightarrow> string list \<Rightarrow> string list" where
  "overviewLoop [] foundOverview paragraphLines = paragraphLines"
| "overviewLoop (line # lines) foundOverview paragraphLines =
     (let trimmedLine = strings_TrimSpace line in
      if strings_HasPrefix trimmedLine ''## Overview''
      then overviewLoop lines True paragraphLines
      else if foundOverview then
        (if trimmedLine = [] \<and> length paragraphLines = 0
         then overviewLoop lines foundOverview paragraphLines
         else if (strings_HasPrefix trimmedLine ''#'' \<or> trimmedLine = [])
                 \<and> length paragraphLines > 0
         then paragraphLines
         else if trimmedLine \<noteq> []
         then overviewLoop lines foundOverview (paragraphLines @ [trimmedLine])
         else overviewLoop lines foundOverview paragraphLines)
      else overviewLoop lines foundOverview paragraphLines)"

definition extractOverviewParagraph :: "string \<Rightarrow> string" where
  "extractOverviewParagraph content =
     strings_Join (overviewLoop (strings_Split content nl) False []) '' ''"

text \<open>The Overview as it is described: the lines are trimmed; the lines up to and
  including the first one that starts with \<open>## Overview\<close> are dropped, then the blank
  lines that follow; the first line left is collected, and the lines after it up to
  the next heading or blank line; the collected lines are joined with single blanks.
  Without a heading nothing is left and the Overview is empty.\<close>

definition overview_described :: "string \<Rightarrow> string" where
  "overview_described content =
     (let trimmed = map strings_TrimSpace (strings_Split content nl);
          after = drop 1 (dropWhile (\<lambda>t. \<not> strings_HasPrefix t ''## Overview'') trimmed)
      in case dropWhile (\<lambda>t. t = []) after of
           [] \<Rightarrow> []
         | first # others \<Rightarrow>
             strings_Join
               (first # takeWhile (\<lambda>t. \<not> strings_HasPrefix t ''#'' \<and> t \<noteq> []) others)
               '' '')"

section \<open>Paths of the Go standard library\<close>

text \<open>
  Package \<open>path/filepath\<close> on a system whose separator is the slash and whose paths
  have no volume name.  A path is a string; its elements are the non-empty pieces
  between slashes.
\<close>

text \<open>The loop of \<open>Clean\<close> over the elements of the path, with the elements written so
  far: a \<open>.\<close> is dropped; a \<open>..\<close> removes the element written last, unless there is
  none or it is itself a \<open>..\<close>, where it is written for a relative path and dropped for
  a rooted one; any other element is written.\<close>

fun cleanLoop :: "bool \<Rightarrow> string list \<Rightarrow> string list \<Rightarrow> string list" where
  "cleanLoop rooted [] out = out"
| "cleanLoop rooted (e # es) out =
     (if e = ''.'' then cleanLoop rooted es out
      else if e = ''..'' then
        (if out \<noteq> [] \<and> last out \<noteq> ''..'' then cleanLoop rooted es (butlast out)
         else if \<not> rooted then cleanLoop rooted es (out @ [''..''])
         else cleanLoop rooted es out)
      else cleanLoop rooted es (out @ [e]))"

definition filepath_Clean :: "string \<Rightarrow> string" where
  "filepath_Clean path =
     (if path = [] then ''.''
      else let rooted = (hd path = CHR ''/'');
               out = cleanLoop rooted (filter (\<lambda>e. e \<noteq> []) (strings_Split path (CHR ''/''))) [];
               cleaned = (if rooted then ''/'' else []) @ strings_Join out ''/''
           in if cleaned = [] then ''.'' else cleaned)"

text \<open>\<open>filepath.Join(a, b)\<close>: the elements from the first non-empty one on, joined by
  slashes and cleaned; the empty string when both are empty.\<close>

definition filepath_Join :: "string \<Rightarrow> string \<Rightarrow> string" where
  "filepath_Join a b =
     (if a \<noteq> [] then filepath_Clean (a @ ''/'' @ b)
      else if b \<noteq> [] then filepath_Clean b
      else [])"

definition filepath_IsAbs :: "string \<Rightarrow> bool" where
  "filepath_IsAbs path \<longleftrightarrow> strings_HasPrefix path ''/''"

text \<open>The part of a path up to and including its last slash, and the part after it.\<close>

definition uptoLastSeparator :: "string \<Rightarrow> string" where
  "uptoLastSeparator path = rev (dropWhile (\<lambda>c. c \<noteq> CHR ''/'') (rev path))"

definition afterLastSeparator :: "string \<Rightarrow> string" where
  "afterLastSeparator path = rev (takeWhile (\<lambda>c. c \<noteq> CHR ''/'') (rev path))"

definition filepath_Dir :: "string \<Rightarrow> string" where
  "filepath_Dir path = filepath_Clean (uptoLastSeparator path)"

definition filepath_Base :: "string \<Rightarrow> string" where
  "filepath_Base path =
     (if path = [] then ''.''
      else let stripped = rev (dropWhile (\<lambda>c. c = CHR ''/'') (rev path));
               element = afterLastSeparator stripped
           in if element = [] then ''/'' else element)"

text \<open>\<open>filepath.Abs(path)\<close>, given the working directory of the process: an absolute
  path is cleaned, a relative one is joined to the working directory.\<close>

definition filepath_Abs :: "string \<Rightarrow> string \<Rightarrow> string" where
  "filepath_Abs wd path =
     (if filepath_IsAbs path then filepath_Clean path else filepath_Join wd path)"

text \<open>\<open>filepath.Rel(basepath, targpath)\<close>.  Both paths are cleaned; equal paths give
  \<open>.\<close>; a rooted and a relative path cannot be related.  Otherwise the common leading
  elements are left out, every element left of the base becomes \<open>..\<close>, and the
  elements left of the target follow.  Where the two paths part at an element \<open>..\<close> of
  the base they cannot be related.  The functions below that call \<open>filepath.Rel\<close> have
  it as their argument \<open>rel\<close>, of type \<open>Rel\<close>, so what is proved of them holds of any
  such function.\<close>

type_synonym Rel = "string \<Rightarrow> string \<Rightarrow> string option"

fun dropCommon :: "string list \<Rightarrow> string list \<Rightarrow> string list \<times> string list" where
  "dropCommon (b # bs) (t # ts) = (if b = t then dropCommon bs ts else (b # bs, t # ts))"
| "dropCommon bs ts = (bs, ts)"

definition elements :: "string \<Rightarrow> string list" where
  "elements p =
     (if p = [] then [] else if p = ''/'' then [[]] else strings_Split p (CHR ''/''))"

definition filepath_Rel :: Rel where
  "filepath_Rel basepath targpath =
     (let base0 = filepath_Clean basepath;
          targ = filepath_Clean targpath
      in if targ = base0 then Some ''.''
         else let base = (if base0 = ''.'' then [] else base0) in
           if strings_HasPrefix base ''/'' \<noteq> strings_HasPrefix targ ''/''
           then None
           else (case dropCommon (elements base) (elements targ) of
                   (bs, ts) \<Rightarrow>
                     if bs \<noteq> [] \<and> ts \<noteq> [] \<and> hd bs = ''..'' then None
                     else if bs \<noteq> []
                     then Some (strings_Join (map (\<lambda>_. ''..'') bs @ ts) ''/'')
                     else Some (strings_Join ts ''/'')))"

text \<open>\<open>filepath.ToSlash\<close> changes nothing where the separator is the slash.\<close>

definition filepath_ToSlash :: "string \<Rightarrow> string" where
  "filepath_ToSlash path = path"

section \<open>Errors and regular expressions of the Go standard library\<close>

text \<open>Go's \<open>error\<close> values: the sentinel \<open>filepath.SkipDir\<close> and errors with a message.\<close>

datatype error = SkipDir | Error string

text \<open>
  The program asks a compiled \<open>*regexp.Regexp\<close> one thing, whether it matches a
  string, so a compiled regular expression is its \<open>MatchString\<close>.  \<open>regexp.Compile\<close>
  is taken as it is, a function from a pattern to an error or a compiled regular
  expression; the functions below that compile patterns have it as an argument.
\<close>

type_synonym Regexp = "string \<Rightarrow> bool"

type_synonym Compile = "string \<Rightarrow> error + Regexp"

subsection \<open>A compiler for the patterns written in the program\<close>

text \<open>
  The patterns that the program itself contains are written in a small part of the
  syntax of package \<open>regexp\<close>: literal bytes, \<open>.\<close> (any character but a line feed),
  the anchors \<open>^\<close> and \<open>$\<close> of the whole text, groups, alternation, the postfix
  operators \<open>*\<close>, \<open>+\<close> and \<open>?\<close>, an escaped punctuation byte, and the flag \<open>(?i)\<close>,
  which folds the case of the letters that follow it in its group.  \<open>compilePart\<close>
  compiles this part and reports every other pattern as an error; on a text of ASCII
  bytes its result matches as the one of \<open>regexp.Compile\<close> does.  It serves where a
  pattern of the program is run on a concrete text.
\<close>

datatype regex =
    Lit bool char
  | AnyChar
  | Bol
  | Eol
  | Empty
  | Seq regex regex
  | Alt regex regex
  | Star regex

abbreviation backslash :: char where
  "backslash \<equiv> CHR 0x5C"

text \<open>A postfix operator after an atom; a second one is not in the syntax modelled.\<close>

definition isPostfix :: "char \<Rightarrow> bool" where
  "isPostfix c \<longleftrightarrow> c = CHR ''*'' \<or> c = CHR ''+'' \<or> c = CHR ''?''"

definition isMeta :: "char \<Rightarrow> bool" where
  "isMeta c \<longleftrightarrow> c = backslash \<or> c \<in> set ''.+*?()|[]{}^$''"

fun parsePostfix :: "regex \<Rightarrow> string \<Rightarrow> (regex \<times> string) option" where
  "parsePostfix a (c # rest) =
     (if isPostfix c then
        (if rest \<noteq> [] \<and> isPostfix (hd rest) then None
         else if c = CHR ''*'' then Some (Star a, rest)
         else if c = CHR ''+'' then Some (Seq a (Star a), rest)
         else Some (Alt a Empty, rest))
      else Some (a, c # rest))"
| "parsePostfix a [] = Some (a, [])"

text \<open>The parser, by recursive descent.  Its first argument bounds the depth of the
  calls; the second is the case folding flag in force, which a group returns as it
  found it.\<close>

fun parseAlt :: "nat \<Rightarrow> bool \<Rightarrow> string \<Rightarrow> (regex \<times> bool \<times> string) option"
  and parseSeq :: "nat \<Rightarrow> bool \<Rightarrow> string \<Rightarrow> (regex \<times> bool \<times> string) option"
  and parseAtom :: "nat \<Rightarrow> bool \<Rightarrow> string \<Rightarrow> (regex \<times> bool \<times> string) option"
where
  "parseAlt 0 ci s = None"
| "parseAlt (Suc n) ci s =
     (case parseSeq n ci s of
        None \<Rightarrow> None
      | Some (r, ci', rest) \<Rightarrow>
          (case rest of
             c # rest' \<Rightarrow>
               (if c = CHR ''|'' then
                  (case parseAlt n ci' rest' of
                     None \<Rightarrow> None
                   | Some (r', ci'', rest'') \<Rightarrow> Some (Alt r r', ci'', rest''))
                else Some (r, ci', rest))
           | [] \<Rightarrow> Some (r, ci', rest)))"
| "parseSeq 0 ci s = None"
| "parseSeq (Suc n) ci s =
     (if s = [] \<or> hd s = CHR ''|'' \<or> hd s = CHR '')'' then Some (Empty, ci, s)
      else (case parseAtom n ci s of
              None \<Rightarrow> None
            | Some (a, ci', rest) \<Rightarrow>
                (case parsePostfix a rest of
                   None \<Rightarrow> None
                 | Some (a', rest') \<Rightarrow>
                     (case parseSeq n ci' rest' of
                        None \<Rightarrow> None
                      | Some (r, ci'', rest'') \<Rightarrow> Some (Seq a' r, ci'', rest'')))))"
| "parseAtom 0 ci s = None"
| "parseAtom (Suc n) ci s =
     (if strings_HasPrefix s ''(?i)'' then Some (Empty, True, drop 4 s)
      else (case s of
              [] \<Rightarrow> None
            | c # rest \<Rightarrow>
                if c = CHR ''('' then
                  (case parseAlt n ci rest of
                     None \<Rightarrow> None
                   | Some (r, ci', rest') \<Rightarrow>
                       (if rest' \<noteq> [] \<and> hd rest' = CHR '')'' then Some (r, ci, tl rest')
                        else None))
                else if c = CHR ''.'' then Some (AnyChar, ci, rest)
                else if c = CHR ''^'' then Some (Bol, ci, rest)
                else if c = CHR ''$'' then Some (Eol, ci, rest)
                else if c = backslash then
                  (case rest of
                     [] \<Rightarrow> None
                   | e # rest' \<Rightarrow>
                       if isMeta e \<or> e = CHR ''/'' \<or> e = CHR ''-'' then Some (Lit ci e, ci, rest')
                       else None)
                else if isMeta c then None
                else Some (Lit ci c, ci, rest)))"

text \<open>Matching.  \<open>ends r s i\<close> lists the positions where a match of \<open>r\<close> that begins
  at position \<open>i\<close> of \<open>s\<close> can end.  For a star the positions reached by one more
  round are added until there is no new one, which takes at most as many rounds as
  \<open>s\<close> has positions.\<close>

fun starRounds :: "nat \<Rightarrow> (nat \<Rightarrow> nat list) \<Rightarrow> nat list \<Rightarrow> nat list" where
  "starRounds 0 step ps = ps"
| "starRounds (Suc n) step ps =
     (let new = filter (\<lambda>q. q \<notin> set ps) (remdups (concat (map step ps)))
      in if new = [] then ps else starRounds n step (ps @ new))"

fun ends :: "regex \<Rightarrow> string \<Rightarrow> nat \<Rightarrow> nat list" where
  "ends (Lit ci c) s i =
     (if i < length s \<and> (if ci then toLowerByte (s ! i) = toLowerByte c else s ! i = c)
      then [Suc i] else [])"
| "ends AnyChar s i = (if i < length s \<and> s ! i \<noteq> nl then [Suc i] else [])"
| "ends Bol s i = (if i = 0 then [i] else [])"
| "ends Eol s i = (if i = length s then [i] else [])"
| "ends Empty s i = [i]"
| "ends (Seq r1 r2) s i = remdups (concat (map (\<lambda>j. ends r2 s j) (ends r1 s i)))"
| "ends (Alt r1 r2) s i = remdups (ends r1 s i @ ends r2 s i)"
| "ends (Star r) s i = starRounds (Suc (length s)) (\<lambda>j. ends r s j) [i]"

text \<open>Some part of \<open>s\<close> matches.\<close>

definition matchPart :: "regex \<Rightarrow> Regexp" where
  "matchPart re s \<longleftrightarrow> list_ex (\<lambda>i. ends re s i \<noteq> []) [0..<Suc (length s)]"

definition compilePart :: Compile where
  "compilePart expr =
     (case parseAlt (4 * length expr + 4) False expr of
        Some (r, ci, []) \<Rightarrow> Inr (matchPart r)
      | _ \<Rightarrow> Inl (Error (''error parsing regexp: '' @ expr)))"

section \<open>Cache and page data\<close>

text \<open>Modelled from the spec: the declarations of \<open>CachedDocument\<close> and \<open>CacheData\<close> are
  not among the sources read; the specification describes the persisted data as a
  version string and an ordered list of CachedDocument, each a Document without its
  Content, and \<open>saveToCache\<close> and \<open>loadFromCache\<close> name the fields.\<close>

record CachedDocument =
  Title :: string
  Path :: string
  RelPath :: string
  DirName :: string
  SourceDir :: string
  SourceName :: string
  AbsPath :: string
  Overview :: string

record CacheData =
  Documents :: "CachedDocument list"
  Version :: string

record DocumentData =
  Title :: string
  AppTitle :: string
  DirName :: string
  AbsPath :: string
  Content :: string

section \<open>Strings through JSON\<close>

text \<open>
  \<open>encoding/json\<close> writes a string as valid UTF-8: every byte at which
  \<open>utf8.DecodeRuneInString\<close> reports an error of width 1 is written as the replacement
  character U+FFFD, and that is what is read back.  The first argument of the loop
  counts the bytes of the current encoding that are still to be copied.
\<close>

definition replacementChar :: string where
  "replacementChar = [CHR 0xEF, CHR 0xBF, CHR 0xBD]"

fun coerceLoop :: "nat \<Rightarrow> string \<Rightarrow> string" where
  "coerceLoop k [] = []"
| "coerceLoop (Suc k) (c # cs) = c # coerceLoop k cs"
| "coerceLoop 0 (c # cs) =
     (case runeSize (c # cs) of
        0 \<Rightarrow> replacementChar @ coerceLoop 0 cs
      | Suc n \<Rightarrow> c # coerceLoop n cs)"

definition jsonString :: "string \<Rightarrow> string" where
  "jsonString s = coerceLoop 0 s"

definition jsonCachedDocument :: "CachedDocument \<Rightarrow> CachedDocument" where
  "jsonCachedDocument c =
     \<lparr>CachedDocument.Title = jsonString (CachedDocument.Title c),
      Path = jsonString (CachedDocument.Path c),
      RelPath = jsonString (CachedDocument.RelPath c),
      DirName = jsonString (CachedDocument.DirName c),
      SourceDir = jsonString (CachedDocument.SourceDir c),
      SourceName = jsonString (CachedDocument.SourceName c),
      AbsPath = jsonString (CachedDocument.AbsPath c),
      Overview = jsonString (CachedDocument.Overview c)\<rparr>"

text \<open>What \<open>json.Unmarshal\<close> reads from the text that \<open>json.MarshalIndent\<close> writes for a
  \<open>CacheData\<close>.\<close>

definition jsonCacheData :: "CacheData \<Rightarrow> CacheData" where
  "jsonCacheData cache =
     \<lparr>CacheData.Documents = map jsonCachedDocument (CacheData.Documents cache),
      Version = jsonString (CacheData.Version cache)\<rparr>"

section \<open>Data model\<close>

record DirectoryConfig =
  Path :: string
  Name :: string
  FilePattern :: string

record Config =
  Directories :: "DirectoryConfig list"
  Port :: string
  Title :: string
  IgnorePatterns :: "string list"

record Document =
  Title :: string
  Path :: string
  Content :: string
  RelPath :: string
  DirName :: string
  SourceDir :: string
  SourceName :: string
  AbsPath :: string
  Overview :: string

text \<open>The application.  \<open>FileRegexes\<close> is the map from a directory's path to its compiled
  file pattern; \<open>UseCache\<close> is the field that \<open>Initialize\<close> sets.\<close>

record App =
  Config :: Config
  Documents :: "Document list"
  IgnoreRegexes :: "Regexp list"
  FileRegexes :: "string \<rightharpoonup> Regexp"
  WorkingDir :: string
  TargetFile :: string
  UseCache :: bool

text \<open>The file system as the program reads it: \<open>ioutil.ReadFile\<close> gives the content of
  the file at a path, or fails.\<close>

type_synonym reader = "string \<Rightarrow> string option"

section \<open>Processing one file\<close>

text \<open>The loop of \<open>processFile\<close> that looks for the title: the first line that begins
  with \<open># \<close> gives it and ends the loop.\<close>

fun titleLoop :: "string list \<Rightarrow> string \<Rightarrow> string" where
  "titleLoop [] title = title"
| "titleLoop (line # lines) title =
     (if strings_HasPrefix line ''# '' then strings_TrimPrefix line ''# ''
      else titleLoop lines title)"

text \<open>\<open>processFile\<close> appends one Document to \<open>a.Documents\<close>, or returns the error of the
  read.  The errors of \<open>filepath.Rel\<close> are dropped as in the source, which leaves the
  empty string.  \<open>filepath.Abs\<close> resolves a relative path against the working directory
  of the process, which is the one the application recorded and never changes.\<close>

definition processFile ::
  "reader \<Rightarrow> Rel \<Rightarrow> App \<Rightarrow> string \<Rightarrow> string \<Rightarrow> string \<Rightarrow> error option \<times> App" where
  "processFile readFile rel a path rootDir sourceName =
     (case readFile path of
        None \<Rightarrow> (Some (Error ''failed to read file''), a)
      | Some content \<Rightarrow>
          (let relPath = (case rel rootDir path of Some r \<Rightarrow> r | None \<Rightarrow> []);
               dirName0 = filepath_Dir relPath;
               dirName1 = (if dirName0 = ''.'' then ''Root'' else dirName0);
               filename = filepath_Base path;
               dirName = (if dirName1 = ''Root'' then filename
                          else dirName1 @ ''/'' @ filename);
               absPath = filepath_Abs (WorkingDir a) path;
               absDir = filepath_Dir absPath;
               relAbsDir0 = (case rel (WorkingDir a) absDir of
                               Some r \<Rightarrow> r | None \<Rightarrow> []);
               relAbsDir = (if strings_HasPrefix relAbsDir0 ''../''
                            then ''/'' @ strings_TrimPrefix relAbsDir0 ''../''
                            else relAbsDir0);
               title = (if strings_Contains content ''# ''
                        then titleLoop (strings_Split content nl) dirName
                        else dirName);
               overview = extractOverviewParagraph content;
               doc = \<lparr>Document.Title = title, Path = path, Content = content, RelPath = relPath,
                      DirName = dirName, SourceDir = rootDir, SourceName = sourceName,
                      AbsPath = relAbsDir, Overview = overview\<rparr>
           in (None, a\<lparr>Documents := Documents a @ [doc]\<rparr>)))"

section \<open>Scanning a directory\<close>

definition shouldIgnorePath :: "App \<Rightarrow> string \<Rightarrow> bool" where
  "shouldIgnorePath a path \<longleftrightarrow> list_ex (\<lambda>regex. regex path) (IgnoreRegexes a)"

text \<open>What \<open>filepath.Walk\<close> finds at a path: a file (anything that is not a directory),
  a directory with its entries in the order \<open>readDirNames\<close> returns them, a directory
  whose entries cannot be read, or an entry whose \<open>lstat\<close> fails.  Each carries the
  name of the entry.\<close>

datatype fsnode =
    File string
  | Dir string "fsnode list"
  | DirUnreadable string
  | Unstat string

fun entryName :: "fsnode \<Rightarrow> string" where
  "entryName (File n) = n"
| "entryName (Dir n entries) = n"
| "entryName (DirUnreadable n) = n"
| "entryName (Unstat n) = n"

fun isDirNode :: "fsnode \<Rightarrow> bool" where
  "isDirNode (Dir n entries) = True"
| "isDirNode (DirUnreadable n) = True"
| "isDirNode node = False"

fun isUnstat :: "fsnode \<Rightarrow> bool" where
  "isUnstat (Unstat n) = True"
| "isUnstat node = False"

text \<open>\<open>os.FileInfo\<close>, as far as the program reads it: \<open>Name()\<close> and \<open>IsDir()\<close>.\<close>

type_synonym FileInfo = "string \<times> bool"

text \<open>The function that \<open>Walk\<close> calls at every entry gets the path and either the
  entry's \<open>FileInfo\<close> or an error; the function of \<open>scanDirectory\<close> returns a given
  error before it reads anything else, so the two arguments are one sum here.  \<open>walk\<close>
  is the recursion of \<open>filepath.Walk\<close>: the function is called on the entry and, for a
  directory it accepts, on the entries below it in order; \<open>SkipDir\<close> from a directory
  skips that directory, every other error ends the walk.\<close>

type_synonym 'st WalkFunc = "string \<Rightarrow> error + FileInfo \<Rightarrow> 'st \<Rightarrow> error option \<times> 'st"

fun walk :: "'st WalkFunc \<Rightarrow> string \<Rightarrow> fsnode \<Rightarrow> 'st \<Rightarrow> error option \<times> 'st"
  and walkEntries :: "'st WalkFunc \<Rightarrow> string \<Rightarrow> fsnode list \<Rightarrow> 'st \<Rightarrow> error option \<times> 'st"
where
  "walk fn path (File n) st = fn path (Inr (n, False)) st"
| "walk fn path (DirUnreadable n) st = fn path (Inl (Error ''readdirnames'')) st"
| "walk fn path (Unstat n) st = fn path (Inl (Error ''lstat'')) st"
| "walk fn path (Dir n entries) st =
     (case fn path (Inr (n, True)) st of
        (Some err, st') \<Rightarrow> (Some err, st')
      | (None, st') \<Rightarrow> walkEntries fn path entries st')"
| "walkEntries fn path [] st = (None, st)"
| "walkEntries fn path (e # es) st =
     (let filename = filepath_Join path (entryName e) in
      if isUnstat e then
        (case fn filename (Inl (Error ''lstat'')) st of
           (Some err, st') \<Rightarrow>
             (if err \<noteq> SkipDir then (Some err, st') else walkEntries fn path es st')
         | (None, st') \<Rightarrow> walkEntries fn path es st')
      else
        (case walk fn filename e st of
           (Some err, st') \<Rightarrow>
             (if \<not> isDirNode e \<or> err \<noteq> SkipDir then (Some err, st')
              else walkEntries fn path es st')
         | (None, st') \<Rightarrow> walkEntries fn path es st'))"

text \<open>\<open>filepath.Walk(root, fn)\<close>: \<open>SkipDir\<close> from the root is not an error.\<close>

definition filepath_Walk ::
  "'st WalkFunc \<Rightarrow> string \<Rightarrow> fsnode \<Rightarrow> 'st \<Rightarrow> error option \<times> 'st" where
  "filepath_Walk fn root node st =
     (case (if isUnstat node then fn root (Inl (Error ''lstat'')) st
            else walk fn root node st) of
        (Some err, st') \<Rightarrow> (if err = SkipDir then (None, st') else (Some err, st'))
      | (None, st') \<Rightarrow> (None, st'))"

text \<open>The function literal of \<open>scanDirectory\<close>.  A failure of \<open>processFile\<close> is logged and the
  walk goes on.  \<open>fileRegex\<close> is a pointer: where it is nil, matching a name ends the
  program, here the walk.\<close>

definition scanFn ::
  "reader \<Rightarrow> Rel \<Rightarrow> string \<Rightarrow> string \<Rightarrow> Regexp option \<Rightarrow> App WalkFunc" where
  "scanFn readFile rel rootDir sourceName fileRegex path arg a =
     (case arg of
        Inl err \<Rightarrow> (Some err, a)
      | Inr (name, isDir) \<Rightarrow>
          if shouldIgnorePath a path then
            (if isDir then (Some SkipDir, a) else (None, a))
          else if \<not> isDir then
            (case fileRegex of
               None \<Rightarrow> (Some (Error ''nil pointer dereference''), a)
             | Some re \<Rightarrow>
                 if re name
                 then (None, snd (processFile readFile rel a path rootDir sourceName))
                 else (None, a))
          else (None, a))"

definition scanDirectory ::
  "reader \<Rightarrow> Rel \<Rightarrow> fsnode \<Rightarrow> App \<Rightarrow> string \<Rightarrow> string \<Rightarrow> Regexp option
     \<Rightarrow> error option \<times> App" where
  "scanDirectory readFile rel tree a rootDir sourceName fileRegex =
     filepath_Walk (scanFn readFile rel rootDir sourceName fileRegex) rootDir tree a"

text \<open>\<open>NewApp\<close>: every field has its zero value and \<open>FileRegexes\<close> is an empty map.\<close>

definition NewApp :: App where
  "NewApp =
     \<lparr>Config = \<lparr>Directories = [], Port = [], Title = [], IgnorePatterns = []\<rparr>,
      Documents = [], IgnoreRegexes = [], FileRegexes = Map.empty, WorkingDir = [],
      TargetFile = [], UseCache = False\<rparr>"

section \<open>The files below a path\<close>

text \<open>The files that a walk from \<open>path\<close> can find in what is there, each with the path
  under which \<open>filepath.Walk\<close> reports it and with the paths of the directories above
  it, from the root of the walk down; \<open>parents\<close> are the directories above \<open>path\<close>.  This
  describes the tree alone, for stating what a scan leaves out.\<close>

fun filesUnder :: "string \<Rightarrow> string list \<Rightarrow> fsnode \<Rightarrow> (string \<times> string list) list"
  and filesUnderEntries :: "string \<Rightarrow> string list \<Rightarrow> fsnode list \<Rightarrow> (string \<times> string list) list"
where
  "filesUnder path parents (File n) = [(path, parents)]"
| "filesUnder path parents (Dir n entries) = filesUnderEntries path (parents @ [path]) entries"
| "filesUnder path parents (DirUnreadable n) = []"
| "filesUnder path parents (Unstat n) = []"
| "filesUnderEntries path parents [] = []"
| "filesUnderEntries path parents (e # es) =
     filesUnder (filepath_Join path (entryName e)) parents e @ filesUnderEntries path parents es"

text \<open>The application after a scan that began with \<open>a\<close>: it differs from \<open>a\<close> in new
  documents at the end of the list, each of a path that is not ignored and that is one
  of \<open>files\<close> with no ignored directory above it.\<close>

definition addsKept :: "App \<Rightarrow> (string \<times> string list) list \<Rightarrow> App \<Rightarrow> bool" where
  "addsKept a files a' \<longleftrightarrow>
     (\<exists>new. a' = a\<lparr>App.Documents := App.Documents a @ new\<rparr>
        \<and> (\<forall>doc\<in>set new.
              \<not> shouldIgnorePath a (Document.Path doc)
              \<and> (\<exists>parents. (Document.Path doc, parents) \<in> set files
                    \<and> (\<forall>dir\<in>set parents. \<not> shouldIgnorePath a dir))))"

section \<open>Directory trees\<close>

datatype TreeNode =
  TreeNode (Name: string) (Path: string) (IsFile: bool) (Document: "Document option")
    (Children: "TreeNode list") (IsOpen: bool)

record DirectoryTree =
  Name :: string
  Root :: TreeNode

text \<open>The map \<open>groupMap\<close> of \<open>BuildDirectoryTrees\<close>: the documents of each source name, in
  the order of \<open>a.Documents\<close>.\<close>

fun groupLoop :: "Document list \<Rightarrow> (string \<rightharpoonup> Document list) \<Rightarrow> (string \<rightharpoonup> Document list)" where
  "groupLoop [] groupMap = groupMap"
| "groupLoop (doc # docs) groupMap =
     groupLoop docs
       (groupMap(SourceName doc \<mapsto>
          (case groupMap (SourceName doc) of None \<Rightarrow> [] | Some ds \<Rightarrow> ds) @ [doc]))"

text \<open>The search for an existing child, and the change of the first child of a name.
  The source walks down through pointers and appends to the node it has reached; here
  the node reached is rebuilt in its place among the children of its parent.\<close>

fun findChild :: "string \<Rightarrow> TreeNode list \<Rightarrow> TreeNode option" where
  "findChild part [] = None"
| "findChild part (child # children) =
     (if TreeNode.Name child = part then Some child else findChild part children)"

fun updateChild :: "string \<Rightarrow> (TreeNode \<Rightarrow> TreeNode) \<Rightarrow> TreeNode list \<Rightarrow> TreeNode list" where
  "updateChild part f [] = []"
| "updateChild part f (child # children) =
     (if TreeNode.Name child = part then f child # children
      else child # updateChild part f children)"

fun setChildren :: "TreeNode \<Rightarrow> TreeNode list \<Rightarrow> TreeNode" where
  "setChildren (TreeNode name path isFile doc children isOpen) children' =
     TreeNode name path isFile doc children' isOpen"

text \<open>The loop of \<open>addDocumentToTree\<close> over the parts of the path, from the node
  \<open>current\<close>; the last part is the file.\<close>

fun addParts :: "string list \<Rightarrow> string \<Rightarrow> Document \<Rightarrow> TreeNode \<Rightarrow> TreeNode" where
  "addParts [] currentPath doc current = current"
| "addParts (part # parts) currentPath doc current =
     (let currentPath' = (if currentPath = [] then part else currentPath @ ''/'' @ part);
          isFile = (parts = [])
      in case findChild part (Children current) of
           None \<Rightarrow>
             (let newNode = TreeNode part currentPath' isFile
                              (if isFile then Some doc else None) [] False
              in setChildren current
                   (Children current @ [addParts parts currentPath' doc newNode]))
         | Some found \<Rightarrow>
             setChildren current
               (updateChild part (\<lambda>child. addParts parts currentPath' doc child)
                  (Children current)))"

definition addDocumentToTree :: "Rel \<Rightarrow> TreeNode \<Rightarrow> Document \<Rightarrow> string \<Rightarrow> TreeNode" where
  "addDocumentToTree rel root doc sourceDir =
     (let relPath = (case rel sourceDir (Document.Path doc) of
                       Some r \<Rightarrow> r | None \<Rightarrow> Document.Path doc);
          parts = strings_Split (filepath_ToSlash relPath) (CHR ''/'')
      in addParts parts [] doc root)"

fun treeLoop :: "Rel \<Rightarrow> Document list \<Rightarrow> TreeNode \<Rightarrow> TreeNode" where
  "treeLoop rel [] root = root"
| "treeLoop rel (doc # docs) root =
     treeLoop rel docs (addDocumentToTree rel root doc (SourceDir doc))"

text \<open>\<open>BuildDirectoryTrees\<close>.  Go leaves the order in which \<open>range\<close> runs over a map
  open; \<open>order\<close> is the order of the keys in one run over \<open>groupMap\<close>.\<close>

definition BuildDirectoryTrees :: "Rel \<Rightarrow> string list \<Rightarrow> App \<Rightarrow> DirectoryTree list" where
  "BuildDirectoryTrees rel order a =
     (let groupMap = groupLoop (Documents a) Map.empty
      in concat (map (\<lambda>sourceName.
           case groupMap sourceName of
             None \<Rightarrow> []
           | Some docs \<Rightarrow>
               [\<lparr>Name = sourceName,
                 Root = treeLoop rel docs (TreeNode sourceName [] False None [] True)\<rparr>])
         order))"

section \<open>Cache\<close>

text \<open>The cache file \<open>.dimandocs-cache.json\<close> is represented by the \<open>CacheData\<close> that
  \<open>json.Unmarshal\<close> decodes from it, and by \<open>None\<close> where it is missing, unreadable or
  not the JSON of a \<open>CacheData\<close>.\<close>

type_synonym cacheFile = "CacheData option"

text \<open>\<open>saveToCache\<close>: \<open>version\<close> is the package variable \<open>Version\<close>, \<open>writable\<close> says
  whether \<open>ioutil.WriteFile\<close> succeeds.  It returns the error and the file.\<close>

definition saveToCache ::
  "string \<Rightarrow> bool \<Rightarrow> App \<Rightarrow> cacheFile \<Rightarrow> error option \<times> cacheFile" where
  "saveToCache version writable a file =
     (let cachedDocs = map (\<lambda>doc.
            \<lparr>CachedDocument.Title = Document.Title doc,
             Path = Document.Path doc,
             RelPath = Document.RelPath doc,
             DirName = Document.DirName doc,
             SourceDir = Document.SourceDir doc,
             SourceName = Document.SourceName doc,
             AbsPath = Document.AbsPath doc,
             Overview = Document.Overview doc\<rparr>) (App.Documents a);
          cache = \<lparr>CacheData.Documents = cachedDocs, Version = version\<rparr>
      in if writable then (None, Some (jsonCacheData cache))
         else (Some (Error ''failed to write cache file''), file))"

definition loadFromCache :: "cacheFile \<Rightarrow> App \<Rightarrow> error option \<times> App" where
  "loadFromCache file a =
     (case file of
        None \<Rightarrow> (Some (Error ''failed to read or parse cache file''), a)
      | Some cache \<Rightarrow>
          (None, a\<lparr>App.Documents := map (\<lambda>cached.
             \<lparr>Document.Title = CachedDocument.Title cached,
              Path = CachedDocument.Path cached,
              Content = [],
              RelPath = CachedDocument.RelPath cached,
              DirName = CachedDocument.DirName cached,
              SourceDir = CachedDocument.SourceDir cached,
              SourceName = CachedDocument.SourceName cached,
              AbsPath = CachedDocument.AbsPath cached,
              Overview = CachedDocument.Overview cached\<rparr>) (CacheData.Documents cache)\<rparr>))"

section \<open>Loading contents\<close>

text \<open>The loop of \<open>loadDocumentContents\<close>, which \<open>handleSearch\<close> repeats: a document with
  content is passed over, a failed read is logged and passed over.\<close>

fun loadLoop :: "reader \<Rightarrow> Document list \<Rightarrow> Document list" where
  "loadLoop readFile [] = []"
| "loadLoop readFile (doc # docs) =
     (if Document.Content doc \<noteq> [] then doc # loadLoop readFile docs
      else (case readFile (Document.Path doc) of
              None \<Rightarrow> doc # loadLoop readFile docs
            | Some content \<Rightarrow> doc\<lparr>Document.Content := content\<rparr> # loadLoop readFile docs))"


section \<open>Request handlers\<close>

text \<open>What a handler answers: not found, an internal server error with its message, a
  page, or the JSON of a list of documents.\<close>

datatype response =
    NotFound
  | InternalServerError string
  | Page DocumentData
  | Results "Document list"



text \<open>\<open>handleSearch\<close>, for the value of the parameter \<open>q\<close>; \<open>lowerTable\<close> is the case
  table of \<open>strings.ToLower\<close>.\<close>

definition handleSearch ::
  "(nat \<Rightarrow> nat) \<Rightarrow> reader \<Rightarrow> App \<Rightarrow> string \<Rightarrow> response \<times> App" where
  "handleSearch lowerTable readFile a q =
     (let query = strings_ToLower lowerTable (strings_TrimSpace q) in
      if query = [] then (Results [], a)
      else
        (let a' = (if UseCache a
                   then a\<lparr>App.Documents := loadLoop readFile (App.Documents a)\<rparr>
                   else a);
             results = filter (\<lambda>doc.
                 strings_Contains (strings_ToLower lowerTable (Document.Title doc)) query
                 \<or> strings_Contains (strings_ToLower lowerTable (Document.Content doc)) query
                 \<or> strings_Contains (strings_ToLower lowerTable (Document.Overview doc)) query)
               (App.Documents a')
         in (Results results, a')))"

section \<open>What loading may change\<close>


section \<open>The search as it is described\<close>

text \<open>The search as it is described: an empty or all-white-space query finds nothing;
  any other query finds exactly the documents whose Title, Content or Overview
  contains the query when case is ignored, that is, when both are put in lower case.\<close>

definition search_described :: "(nat \<Rightarrow> nat) \<Rightarrow> Document list \<Rightarrow> string \<Rightarrow> Document list" where
  "search_described lowerTable docs q =
     (if strings_TrimSpace q = [] then []
      else filter (\<lambda>doc.
             strings_Contains (strings_ToLower lowerTable (Document.Title doc))
               (strings_ToLower lowerTable q)
             \<or> strings_Contains (strings_ToLower lowerTable (Document.Content doc))
                  (strings_ToLower lowerTable q)
             \<or> strings_Contains (strings_ToLower lowerTable (Document.Overview doc))
                  (strings_ToLower lowerTable q)) docs)"

section \<open>Documents that pass through the cache unchanged\<close>

text \<open>Every field that the cache stores is valid UTF-8.\<close>

definition validFields :: "Document \<Rightarrow> bool" where
  "validFields doc \<longleftrightarrow>
     utf8_ValidString (Document.Title doc) \<and> utf8_ValidString (Document.Path doc)
     \<and> utf8_ValidString (Document.RelPath doc) \<and> utf8_ValidString (Document.DirName doc)
     \<and> utf8_ValidString (Document.SourceDir doc) \<and> utf8_ValidString (Document.SourceName doc)
     \<and> utf8_ValidString (Document.AbsPath doc) \<and> utf8_ValidString (Document.Overview doc)"

section \<open>Configuration\<close>

definition getDefaultConfig :: Config where
  "getDefaultConfig =
     \<lparr>Directories =
        [\<lparr>DirectoryConfig.Path = ''./'', Name = ''Documents'',
          FilePattern = [backslash] @ ''.md$''\<rparr>],
      Port = ''8090'',
      Title = ''Documentation Browser'',
      IgnorePatterns =
        [''.*/node_modules/.*'',
         ''.*/'' @ [backslash] @ ''.git/.*'',
         ''.*/vendor/.*'',
         ''.*/build/.*'',
         ''.*/dist/.*'']\<rparr>"

text \<open>\<open>handleTargetPath\<close>.  \<open>stat\<close> is \<open>os.Stat\<close> on the absolute path: whether it is a
  directory, or \<open>None\<close> where it fails.\<close>

definition handleTargetPath :: "(string \<Rightarrow> bool option) \<Rightarrow> App \<Rightarrow> string \<Rightarrow> error + App" where
  "handleTargetPath stat a targetPath =
     (let absPath = filepath_Abs (WorkingDir a) targetPath in
      case stat absPath of
        None \<Rightarrow> Inl (Error (''path does not exist: '' @ targetPath))
      | Some isDir \<Rightarrow>
          if isDir then
            Inr (a\<lparr>App.Config := (App.Config a)\<lparr>Directories :=
                   [\<lparr>DirectoryConfig.Path = absPath, Name = ''Documents'',
                     FilePattern = [backslash] @ ''.md$''\<rparr>]\<rparr>\<rparr>)
          else
            Inr (a\<lparr>TargetFile := absPath,
                   App.Config := (App.Config a)\<lparr>Directories :=
                   [\<lparr>DirectoryConfig.Path = filepath_Dir absPath, Name = ''Documents'',
                     FilePattern = [backslash] @ ''.md$''\<rparr>]\<rparr>\<rparr>))"

text \<open>The two loops of \<open>LoadConfig\<close> that compile the patterns.\<close>

fun compileIgnorePatterns ::
  "Compile \<Rightarrow> string list \<Rightarrow> Regexp list \<Rightarrow> error + Regexp list" where
  "compileIgnorePatterns compile [] regexes = Inr regexes"
| "compileIgnorePatterns compile (pattern # patterns) regexes =
     (case compile pattern of
        Inl err \<Rightarrow> Inl (Error (''failed to compile ignore pattern '' @ pattern))
      | Inr regex \<Rightarrow> compileIgnorePatterns compile patterns (regexes @ [regex]))"

fun compileFilePatterns ::
  "Compile \<Rightarrow> DirectoryConfig list \<Rightarrow> (string \<rightharpoonup> Regexp)
     \<Rightarrow> error + (string \<rightharpoonup> Regexp)" where
  "compileFilePatterns compile [] fileRegexes = Inr fileRegexes"
| "compileFilePatterns compile (dirConfig # dirConfigs) fileRegexes =
     (let pattern = (if FilePattern dirConfig = []
                     then ''^(?i)(readme'' @ [backslash] @ ''.md)$''
                     else FilePattern dirConfig)
      in case compile pattern of
           Inl err \<Rightarrow> Inl (Error (''failed to compile file pattern '' @ pattern))
         | Inr regex \<Rightarrow>
             compileFilePatterns compile dirConfigs
               (fileRegexes(DirectoryConfig.Path dirConfig \<mapsto> regex)))"

text \<open>What reading and parsing the configuration file gives.\<close>

datatype configRead = NotExist | ReadError | ParseError | Parsed Config

definition LoadConfig ::
  "Compile \<Rightarrow> (string \<Rightarrow> configRead) \<Rightarrow> (string \<Rightarrow> bool option) \<Rightarrow> App \<Rightarrow> string \<Rightarrow> string
     \<Rightarrow> error + App" where
  "LoadConfig compile readConfig stat a configFile0 targetPath =
     (let configFile = (if configFile0 = [] then ''dimandocs.json'' else configFile0);
          loaded =
            (case readConfig configFile of
               NotExist \<Rightarrow>
                 if configFile = ''dimandocs.json''
                 then Inr (a\<lparr>App.Config := getDefaultConfig\<rparr>)
                 else Inl (Error ''failed to read config file'')
             | ReadError \<Rightarrow> Inl (Error ''failed to read config file'')
             | ParseError \<Rightarrow> Inl (Error ''failed to parse config file'')
             | Parsed c \<Rightarrow> Inr (a\<lparr>App.Config := c\<rparr>))
      in case loaded of
           Inl err \<Rightarrow> Inl err
         | Inr a1 \<Rightarrow>
             (case (if targetPath \<noteq> [] then handleTargetPath stat a1 targetPath else Inr a1) of
                Inl err \<Rightarrow> Inl err
              | Inr a2 \<Rightarrow>
                  (case compileIgnorePatterns compile (IgnorePatterns (App.Config a2))
                          (IgnoreRegexes a2) of
                     Inl err \<Rightarrow> Inl err
                   | Inr regexes \<Rightarrow>
                       (case compileFilePatterns compile (Directories (App.Config a2)) Map.empty of
                          Inl err \<Rightarrow> Inl err
                        | Inr fileRegexes \<Rightarrow>
                            Inr (a2\<lparr>IgnoreRegexes := regexes,
                                    FileRegexes := fileRegexes\<rparr>)))))"

text \<open>\<open>ScanDirectories\<close>.  \<open>lstat\<close> gives what \<open>filepath.Walk\<close> finds at the path of a
  configured directory.\<close>

fun scanLoop ::
  "reader \<Rightarrow> Rel \<Rightarrow> (string \<Rightarrow> fsnode) \<Rightarrow> DirectoryConfig list \<Rightarrow> App
     \<Rightarrow> error option \<times> App" where
  "scanLoop readFile rel lstat [] a = (None, a)"
| "scanLoop readFile rel lstat (dirConfig # dirConfigs) a =
     (case scanDirectory readFile rel (lstat (DirectoryConfig.Path dirConfig)) a
             (DirectoryConfig.Path dirConfig) (DirectoryConfig.Name dirConfig)
             (FileRegexes a (DirectoryConfig.Path dirConfig)) of
        (Some err, a') \<Rightarrow> (Some (Error ''failed to scan directory''), a')
      | (None, a') \<Rightarrow> scanLoop readFile rel lstat dirConfigs a')"

definition ScanDirectories ::
  "reader \<Rightarrow> Rel \<Rightarrow> (string \<Rightarrow> fsnode) \<Rightarrow> App \<Rightarrow> error option \<times> App" where
  "ScanDirectories readFile rel lstat a =
     scanLoop readFile rel lstat (Directories (App.Config a)) a"

text \<open>The pattern that \<open>LoadConfig\<close> compiles for a directory without a file pattern.\<close>

definition readmePattern :: string where
  "readmePattern = ''^(?i)(readme'' @ [backslash] @ ''.md)$''"

section \<open>Example data\<close>

text \<open>A document of the source \<open>Docs\<close> with a title, a path and a content, and a file
  system that holds three files, used where a statement is run on concrete data.\<close>

definition exampleDoc :: "string \<Rightarrow> string \<Rightarrow> string \<Rightarrow> Document" where
  "exampleDoc title path content =
     \<lparr>Document.Title = title, Path = path, Content = content, RelPath = path,
      DirName = path, SourceDir = ''.'', SourceName = ''Docs'', AbsPath = ''.'',
      Overview = []\<rparr>"

definition exampleFiles :: reader where
  "exampleFiles path =
     (if path = ''a.md'' then Some ''changed on disk''
      else if path = ''b.md'' then Some ''text of b''
      else None)"

text \<open>A directory \<open>docs\<close> with two files and a directory \<open>vendor\<close> that holds one file;
  an application that ignores the paths that contain \<open>vendor\<close>; and a file pattern that
  matches the names that contain \<open>.md\<close>.\<close>

definition exampleTree :: fsnode where
  "exampleTree = Dir ''docs'' [File ''a.md'', File ''b.txt'', Dir ''vendor'' [File ''v.md'']]"

definition exampleApp :: App where
  "exampleApp = NewApp\<lparr>IgnoreRegexes := [\<lambda>path. strings_Contains path ''vendor''],
                        WorkingDir := ''/home/u''\<rparr>"

definition examplePattern :: Regexp where
  "examplePattern name = strings_Contains name ''.md''"

text \<open>A configuration with one directory that has no file pattern.\<close>

definition exampleConfig :: Config where
  "exampleConfig =
     \<lparr>Directories = [\<lparr>DirectoryConfig.Path = ''docs'', Name = ''Docs'', FilePattern = []\<rparr>],
      Port = ''8090'', Title = ''Docs'', IgnorePatterns = [''.*/vendor/.*'']\<rparr>"

section \<open>Facts about the string functions\<close>

lemma HasPrefix_iff: "strings_HasPrefix s p \<longleftrightarrow> (\<exists>post. s = p @ post)"
  unfolding strings_HasPrefix_def
  by (metis append_eq_conv_conj append_take_drop_id)

lemma Contains_iff: "strings_Contains s sub \<longleftrightarrow> (\<exists>pre post. s = pre @ sub @ post)"
proof (induction s)
  case Nil
  then show ?case by simp
next
  case (Cons x xs)
  show ?case
  proof
    assume "strings_Contains (x # xs) sub"
    then consider "strings_HasPrefix (x # xs) sub" | "strings_Contains xs sub" by auto
    then show "\<exists>pre post. x # xs = pre @ sub @ post"
    proof cases
      case 1
      then obtain post where "x # xs = sub @ post" by (auto simp: HasPrefix_iff)
      then have "x # xs = [] @ sub @ post" by simp
      then show ?thesis by blast
    next
      case 2
      with Cons obtain pre post where "xs = pre @ sub @ post" by blast
      then have "x # xs = (x # pre) @ sub @ post" by simp
      then show ?thesis by blast
    qed
  next
    assume "\<exists>pre post. x # xs = pre @ sub @ post"
    then obtain pre post where e: "x # xs = pre @ sub @ post" by blast
    show "strings_Contains (x # xs) sub"
    proof (cases pre)
      case Nil
      with e have "strings_HasPrefix (x # xs) sub" by (auto simp: HasPrefix_iff)
      then show ?thesis by simp
    next
      case (Cons y ys)
      with e have "xs = ys @ sub @ post" by simp
      with Cons.IH show ?thesis by auto
    qed
  qed
qed

lemma Split_nonempty: "strings_Split s c \<noteq> []"
  by (induction s) (auto split: list.splits)

lemma Split_first:
  "strings_Split s c = piece # pieces \<Longrightarrow> \<exists>post. s = piece @ post"
proof (induction s arbitrary: piece pieces)
  case Nil
  then show ?case by simp
next
  case (Cons x xs)
  show ?case
  proof (cases "x = c")
    case True
    with Cons.prems show ?thesis by simp
  next
    case False
    obtain q qs where sp: "strings_Split xs c = q # qs"
      using Split_nonempty [of xs c] by (cases "strings_Split xs c") auto
    from Cons.IH [OF sp] obtain post where "xs = q @ post" by blast
    moreover from sp False Cons.prems have "piece = x # q" by simp
    ultimately have "x # xs = piece @ post" by simp
    then show ?thesis by blast
  qed
qed

lemma Split_piece:
  "l \<in> set (strings_Split s c) \<Longrightarrow> \<exists>pre post. s = pre @ l @ post"
proof (induction s arbitrary: l)
  case Nil
  then show ?case by simp
next
  case (Cons x xs)
  show ?case
  proof (cases "x = c")
    case True
    with Cons.prems have "l = [] \<or> l \<in> set (strings_Split xs c)" by simp
    then show ?thesis
    proof
      assume "l = []"
      then have "x # xs = [] @ l @ (x # xs)" by simp
      then show ?thesis by blast
    next
      assume "l \<in> set (strings_Split xs c)"
      from Cons.IH [OF this] obtain pre post where "xs = pre @ l @ post" by blast
      then have "x # xs = (x # pre) @ l @ post" by simp
      then show ?thesis by blast
    qed
  next
    case False
    obtain piece pieces where sp: "strings_Split xs c = piece # pieces"
      using Split_nonempty [of xs c] by (cases "strings_Split xs c") auto
    with False Cons.prems have "l = x # piece \<or> l \<in> set pieces" by simp
    then show ?thesis
    proof
      assume l: "l = x # piece"
      from Split_first [OF sp] obtain post where "xs = piece @ post" by blast
      with l have "x # xs = [] @ l @ post" by simp
      then show ?thesis by blast
    next
      assume "l \<in> set pieces"
      then have "l \<in> set (strings_Split xs c)" using sp by simp
      from Cons.IH [OF this] obtain pre post where "xs = pre @ l @ post" by blast
      then have "x # xs = (x # pre) @ l @ post" by simp
      then show ?thesis by blast
    qed
  qed
qed

section \<open>Properties of the front matter stripping\<close>

lemma closingLoop_dropWhile:
  "closingLoop ls =
     (case dropWhile (\<lambda>l. strings_TrimSpace l \<noteq> ''---'') ls of
        [] \<Rightarrow> None
      | _ # r \<Rightarrow> Some (strings_Join r [nl]))"
  by (induction ls) simp_all

text \<open>
  C10 (as the code has it).  \<open>stripFrontmatter\<close> returns its input unchanged unless the
  content begins with \<open>---\<close> followed by a line feed (or by carriage return and line
  feed), splits into at least three lines, and some line after the first trims to
  \<open>---\<close>; when all three hold it returns the lines after the first such line, joined
  by line feeds.
\<close>

theorem C10_stripFrontmatter_three_lines:
  "stripFrontmatter content =
     (let lines = strings_Split content nl;
          rest = dropWhile (\<lambda>l. strings_TrimSpace l \<noteq> ''---'') (drop 1 lines)
      in if (strings_HasPrefix content (''---'' @ [nl])
             \<or> strings_HasPrefix content (''---'' @ [cr, nl]))
            \<and> 3 \<le> length lines \<and> rest \<noteq> []
         then strings_Join (tl rest) [nl]
         else content)"
proof (cases "dropWhile (\<lambda>l. strings_TrimSpace l \<noteq> ''---'')
                 (drop 1 (strings_Split content nl))")
  case Nil
  then show ?thesis
    by (simp add: stripFrontmatter_def Let_def closingLoop_dropWhile
        del: dropWhile_eq_Nil_conv)
next
  case (Cons l r)
  then show ?thesis
    by (simp add: stripFrontmatter_def Let_def closingLoop_dropWhile not_less
        del: dropWhile_eq_Nil_conv)
qed

text \<open>
  C10 (as it is stated) fails on the two-line content \<open>---\<close>, line feed, \<open>---\<close>: it
  begins with a delimiter line and its second line is \<open>---\<close>, so the described result
  is the empty string, but the guard on fewer than three lines returns the content
  unchanged.
\<close>

theorem C10_stripFrontmatter_two_lines_counterexample:
  "stripFrontmatter (''---'' @ [nl] @ ''---'') = ''---'' @ [nl] @ ''---''
   \<and> stripFrontmatter_described (''---'' @ [nl] @ ''---'') = []"
  by (simp add: stripFrontmatter_def stripFrontmatter_described_def strings_HasPrefix_def
      strings_TrimSpace_def isAsciiSpace_def)

section \<open>Properties of the Overview paragraph\<close>

lemma overviewLoop_before_heading:
  "overviewLoop lines False [] =
     (case dropWhile (\<lambda>l. \<not> strings_HasPrefix (strings_TrimSpace l) ''## Overview'') lines of
        [] \<Rightarrow> []
      | heading # rest \<Rightarrow> overviewLoop rest True [])"
  by (induction lines) (simp_all add: Let_def)

lemma overviewLoop_collecting:
  assumes "\<forall>l\<in>set lines. \<not> strings_HasPrefix (strings_TrimSpace l) ''## Overview''"
    and "paragraphLines \<noteq> []"
  shows "overviewLoop lines True paragraphLines =
     paragraphLines @ takeWhile (\<lambda>t. \<not> strings_HasPrefix t ''#'' \<and> t \<noteq> [])
                        (map strings_TrimSpace lines)"
  using assms by (induction lines arbitrary: paragraphLines) (simp_all add: Let_def)

lemma overviewLoop_after_heading:
  assumes "\<forall>l\<in>set lines. \<not> strings_HasPrefix (strings_TrimSpace l) ''## Overview''"
  shows "overviewLoop lines True [] =
     (case dropWhile (\<lambda>t. t = []) (map strings_TrimSpace lines) of
        [] \<Rightarrow> []
      | first # others \<Rightarrow>
          first # takeWhile (\<lambda>t. \<not> strings_HasPrefix t ''#'' \<and> t \<noteq> []) others)"
  using assms
proof (induction lines)
  case Nil
  then show ?case by simp
next
  case (Cons l lines)
  show ?case
  proof (cases "strings_TrimSpace l = []")
    case True
    with Cons show ?thesis by (simp add: Let_def)
  next
    case False
    with Cons.prems show ?thesis
      by (simp add: Let_def overviewLoop_collecting)
  qed
qed

text \<open>Where no line after the heading starts with \<open>## Overview\<close> again, the function
  returns the Overview as it is described.\<close>

lemma extractOverview_agrees:
  assumes "\<forall>l\<in>set (drop 1 (dropWhile
              (\<lambda>l. \<not> strings_HasPrefix (strings_TrimSpace l) ''## Overview'')
              (strings_Split content nl))).
             \<not> strings_HasPrefix (strings_TrimSpace l) ''## Overview''"
  shows "extractOverviewParagraph content = overview_described content"
proof -
  let ?P = "\<lambda>l. \<not> strings_HasPrefix (strings_TrimSpace l) ''## Overview''"
  let ?lines = "strings_Split content nl"
  have dm: "dropWhile (\<lambda>t. \<not> strings_HasPrefix t ''## Overview'') (map strings_TrimSpace ?lines)
      = map strings_TrimSpace (dropWhile ?P ?lines)"
    by (simp add: dropWhile_map comp_def)
  show ?thesis
  proof (cases "dropWhile ?P ?lines")
    case Nil
    then show ?thesis
      by (simp add: extractOverviewParagraph_def overview_described_def
          overviewLoop_before_heading dm del: dropWhile_eq_Nil_conv)
  next
    case (Cons heading rest)
    with assms have "\<forall>l\<in>set rest. ?P l" by simp
    note loop = overviewLoop_after_heading [OF this]
    have lhs: "extractOverviewParagraph content =
        strings_Join (overviewLoop rest True []) '' ''"
      by (simp add: extractOverviewParagraph_def overviewLoop_before_heading Cons)
    have rhs: "overview_described content =
        (case dropWhile (\<lambda>t. t = []) (map strings_TrimSpace rest) of
           [] \<Rightarrow> []
         | first # others \<Rightarrow>
             strings_Join
               (first # takeWhile (\<lambda>t. \<not> strings_HasPrefix t ''#'' \<and> t \<noteq> []) others)
               '' '')"
      by (simp add: overview_described_def dm Cons del: dropWhile_eq_Nil_conv)
    show ?thesis
      unfolding lhs rhs loop
      by (cases "dropWhile (\<lambda>t. t = []) (map strings_TrimSpace rest)")
         (simp_all del: dropWhile_eq_Nil_conv)
  qed
qed

text \<open>The example of the specification.\<close>

lemma extractOverview_example:
  "extractOverviewParagraph
     (''## Overview'' @ [nl] @ ''Line one.'' @ [nl] @ ''Line two.'' @ [nl, nl] @ ''## Next'')
   = ''Line one. Line two.''"
  by (simp add: extractOverviewParagraph_def strings_TrimSpace_def isAsciiSpace_def
      strings_HasPrefix_def)

text \<open>
  C5.  The Overview is described as the first paragraph after the first line that
  starts with \<open>## Overview\<close>, collected up to the next heading or blank line.  On the
  content \<open>## Overview\<close>, \<open>A\<close>, \<open>## Overview B\<close>, \<open>C\<close> (four lines) that paragraph is
  \<open>A\<close>; \<open>extractOverviewParagraph\<close> tests for the Overview heading before it tests for
  the end of the paragraph, passes over the second heading and returns \<open>A C\<close>.
\<close>

theorem C5_overview_second_heading:
  "extractOverviewParagraph
     (''## Overview'' @ [nl] @ ''A'' @ [nl] @ ''## Overview B'' @ [nl] @ ''C'') = ''A C''
   \<and> overview_described
     (''## Overview'' @ [nl] @ ''A'' @ [nl] @ ''## Overview B'' @ [nl] @ ''C'') = ''A''"
  by (simp add: extractOverviewParagraph_def overview_described_def strings_TrimSpace_def
      isAsciiSpace_def strings_HasPrefix_def)

section \<open>Properties of the title\<close>

lemma titleLoop_find:
  "titleLoop lines title =
     (case find (\<lambda>line. take 2 line = ''# '') lines of
        Some line \<Rightarrow> drop 2 line
      | None \<Rightarrow> title)"
  by (induction lines) (simp_all add: strings_HasPrefix_def strings_TrimPrefix_def numeral_2_eq_2)

text \<open>A line that begins with \<open># \<close> makes the content contain \<open># \<close>, so the test that
  \<open>processFile\<close> makes before it splits the content never hides such a line.\<close>

lemma heading_line_Contains:
  assumes "find (\<lambda>line. take 2 line = ''# '') (strings_Split content nl) = Some line"
  shows "strings_Contains content ''# ''"
proof -
  from assms have "line \<in> set (strings_Split content nl)" and "take 2 line = ''# ''"
    by (auto simp: find_Some_iff)
  then obtain pre post where "content = pre @ line @ post"
    using Split_piece by blast
  moreover from \<open>take 2 line = ''# ''\<close> have "line = ''# '' @ drop 2 line"
    by (metis append_take_drop_id)
  ultimately have "content = pre @ ''# '' @ (drop 2 line @ post)"
    by (metis append.assoc)
  then show ?thesis unfolding Contains_iff by blast
qed

text \<open>
  C6.  For a file that can be read, \<open>processFile\<close> appends one Document; its Title is
  the text after \<open># \<close> on the first line of the content (split at line feeds) that
  begins with \<open># \<close>, and the Document's DirName where no line begins with \<open># \<close>.
  This holds whatever \<open>filepath.Rel\<close> returns.
\<close>

theorem C6_title_of_document:
  assumes "readFile path = Some content"
  shows "\<exists>doc. processFile readFile rel a path rootDir sourceName
                 = (None, a\<lparr>App.Documents := App.Documents a @ [doc]\<rparr>)
           \<and> Document.Content doc = content
           \<and> Document.Title doc =
               (case find (\<lambda>line. take 2 line = ''# '') (strings_Split content nl) of
                  Some line \<Rightarrow> drop 2 line
                | None \<Rightarrow> Document.DirName doc)"
proof -
  have heading: "strings_Contains content ''# ''"
    if "find (\<lambda>line. take 2 line = ''# '') (strings_Split content nl) = Some line" for line
    using heading_line_Contains [OF that] .
  show ?thesis
    unfolding processFile_def Let_def
    apply (simp only: assms option.case)
    apply (rule exI, rule conjI, rule refl)
    apply (simp add: titleLoop_find heading split: option.splits)
    done
qed

text \<open>The two examples of the specification: the content \<open># My Title\<close>, \<open>Body\<close> gives the
  Title \<open>My Title\<close>, and a content without a line that begins with \<open># \<close> gives the
  DirName.\<close>

theorem C6_title_of_document_witness:
  "(\<exists>doc. processFile (\<lambda>p. Some (''# My Title'' @ [nl] @ ''Body'')) filepath_Rel
            (NewApp\<lparr>WorkingDir := ''/home/u''\<rparr>) ''docs/guide/intro.md'' ''docs'' ''Docs''
          = (None, NewApp\<lparr>WorkingDir := ''/home/u'', App.Documents := [doc]\<rparr>)
        \<and> Document.Title doc = ''My Title'')
   \<and> (\<exists>doc. processFile (\<lambda>p. Some (''## Sub'' @ [nl] @ ''Body'')) filepath_Rel
            (NewApp\<lparr>WorkingDir := ''/home/u''\<rparr>) ''docs/guide/intro.md'' ''docs'' ''Docs''
          = (None, NewApp\<lparr>WorkingDir := ''/home/u'', App.Documents := [doc]\<rparr>)
        \<and> Document.Title doc = Document.DirName doc)"
  using C6_title_of_document [of "\<lambda>p. Some (''# My Title'' @ [nl] @ ''Body'')"
      "''docs/guide/intro.md''" "''# My Title'' @ [nl] @ ''Body''" filepath_Rel
      "NewApp\<lparr>WorkingDir := ''/home/u''\<rparr>" "''docs''" "''Docs''"]
    C6_title_of_document [of "\<lambda>p. Some (''## Sub'' @ [nl] @ ''Body'')"
      "''docs/guide/intro.md''" "''## Sub'' @ [nl] @ ''Body''" filepath_Rel
      "NewApp\<lparr>WorkingDir := ''/home/u''\<rparr>" "''docs''" "''Docs''"]
  by (simp add: NewApp_def) blast

section \<open>Properties of the displayed path\<close>

lemma rel_two_levels_up:
  "filepath_Rel ''/home/u/app'' (filepath_Dir (filepath_Abs ''/home/u/app'' ''/home/foo/x.md''))
     = Some ''../../foo''"
  by code_simp

text \<open>
  C3 (as the code has it).  For a file that can be read, the AbsPath of its Document
  is the directory of the file's absolute path made relative to the working directory
  (the empty string where \<open>filepath.Rel\<close> fails), and where that relative path begins
  with \<open>../\<close> this first \<open>../\<close> is replaced by \<open>/\<close>, and nothing else is changed.  The
  AbsPath never begins with \<open>../\<close>.  This holds whatever \<open>filepath.Rel\<close> returns.
\<close>

theorem C3_AbsPath_first_dotdot:
  assumes "readFile path = Some content"
  shows "\<exists>doc. processFile readFile rel a path rootDir sourceName
                 = (None, a\<lparr>App.Documents := App.Documents a @ [doc]\<rparr>)
           \<and> Document.AbsPath doc =
               (let relAbsDir =
                      (case rel (WorkingDir a) (filepath_Dir (filepath_Abs (WorkingDir a) path)) of
                         Some r \<Rightarrow> r
                       | None \<Rightarrow> [])
                in if take 3 relAbsDir = ''../'' then ''/'' @ drop 3 relAbsDir else relAbsDir)
           \<and> take 3 (Document.AbsPath doc) \<noteq> ''../''"
  unfolding processFile_def Let_def
  apply (simp only: assms option.case)
  apply (rule exI, rule conjI, rule refl)
  apply (simp add: strings_HasPrefix_def strings_TrimPrefix_def numeral_3_eq_3)
  done

theorem C3_AbsPath_first_dotdot_witness:
  "\<exists>doc. processFile (\<lambda>p. Some ''text'') filepath_Rel (NewApp\<lparr>WorkingDir := ''/home/u/app''\<rparr>)
            ''/home/foo/x.md'' ''/home/foo'' ''Docs''
          = (None, NewApp\<lparr>WorkingDir := ''/home/u/app'', App.Documents := [doc]\<rparr>)
        \<and> Document.AbsPath doc = ''/../foo''"
  using C3_AbsPath_first_dotdot [of "\<lambda>p. Some ''text''" "''/home/foo/x.md''" "''text''"
      filepath_Rel "NewApp\<lparr>WorkingDir := ''/home/u/app''\<rparr>" "''/home/foo''" "''Docs''"]
  by (simp add: NewApp_def rel_two_levels_up) blast

text \<open>
  C3 (as it is stated) fails for the file \<open>/home/foo/x.md\<close> scanned from the working
  directory \<open>/home/u/app\<close>: the directory of the file relative to the working directory
  is \<open>../../foo\<close>, and the AbsPath is \<open>/../foo\<close>, not \<open>/foo\<close>.
\<close>

theorem C3_two_levels_up_counterexample:
  "filepath_Rel ''/home/u/app'' (filepath_Dir (filepath_Abs ''/home/u/app'' ''/home/foo/x.md''))
     = Some ''../../foo''
   \<and> map Document.AbsPath (App.Documents (snd (processFile (\<lambda>p. Some ''text'') filepath_Rel
       (NewApp\<lparr>WorkingDir := ''/home/u/app''\<rparr>) ''/home/foo/x.md'' ''/home/foo'' ''Docs'')))
     = [''/../foo'']"
  by code_simp

section \<open>Properties of the scan\<close>

lemma processFile_cases:
  "snd (processFile readFile rel a path rootDir sourceName) = a
   \<or> (\<exists>doc. snd (processFile readFile rel a path rootDir sourceName)
              = a\<lparr>App.Documents := App.Documents a @ [doc]\<rparr>
            \<and> Document.Path doc = path)"
proof (cases "readFile path")
  case None
  then show ?thesis by (simp add: processFile_def)
next
  case (Some content)
  show ?thesis
    unfolding processFile_def Let_def
    apply (simp only: Some option.case snd_conv)
    apply (rule disjI2, rule exI, rule conjI, rule refl)
    apply simp
    done
qed

lemma shouldIgnorePath_Documents [simp]:
  "shouldIgnorePath (a\<lparr>App.Documents := docs\<rparr>) = shouldIgnorePath a"
  by (rule ext) (simp add: shouldIgnorePath_def)

text \<open>What one call of the function of \<open>scanDirectory\<close> can do.\<close>

lemma scanFn_file:
  assumes "scanFn readFile rel rootDir sourceName fileRegex path (Inr (n, False)) a = (err, a')"
  shows "a' = a \<or> (\<exists>doc. a' = a\<lparr>App.Documents := App.Documents a @ [doc]\<rparr>
                      \<and> Document.Path doc = path \<and> \<not> shouldIgnorePath a path)"
  using assms processFile_cases [of readFile rel a path rootDir sourceName]
  by (auto simp: scanFn_def split: if_splits option.splits)

lemma scanFn_dir:
  assumes "scanFn readFile rel rootDir sourceName fileRegex path (Inr (n, True)) a = (err, a')"
  shows "a' = a \<and> (err = None \<longrightarrow> \<not> shouldIgnorePath a path)"
  using assms by (auto simp: scanFn_def split: if_splits)

lemma scanFn_error:
  assumes "scanFn readFile rel rootDir sourceName fileRegex path (Inl e) a = (err, a')"
  shows "a' = a"
  using assms by (simp add: scanFn_def)

lemma addsKept_refl: "addsKept a files a"
  unfolding addsKept_def by (intro exI [of _ "[]"]) simp

lemma addsKept_one:
  assumes "a' = a\<lparr>App.Documents := App.Documents a @ [doc]\<rparr>"
    and "\<not> shouldIgnorePath a (Document.Path doc)"
    and "(Document.Path doc, parents) \<in> set files"
    and "\<forall>dir\<in>set parents. \<not> shouldIgnorePath a dir"
  shows "addsKept a files a'"
  unfolding addsKept_def using assms by (intro exI [of _ "[doc]"]) auto

lemma addsKept_ignore: "addsKept a files a' \<Longrightarrow> shouldIgnorePath a' = shouldIgnorePath a"
  unfolding addsKept_def by auto

lemma addsKept_trans:
  assumes "addsKept a files1 a'" and "addsKept a' files2 a''"
  shows "addsKept a (files1 @ files2) a''"
proof -
  from assms(1) obtain new1 where n1: "a' = a\<lparr>App.Documents := App.Documents a @ new1\<rparr>"
    and k1: "\<forall>doc\<in>set new1. \<not> shouldIgnorePath a (Document.Path doc)
              \<and> (\<exists>parents. (Document.Path doc, parents) \<in> set files1
                    \<and> (\<forall>dir\<in>set parents. \<not> shouldIgnorePath a dir))"
    unfolding addsKept_def by blast
  from assms(2) obtain new2 where n2: "a'' = a'\<lparr>App.Documents := App.Documents a' @ new2\<rparr>"
    and k2: "\<forall>doc\<in>set new2. \<not> shouldIgnorePath a' (Document.Path doc)
              \<and> (\<exists>parents. (Document.Path doc, parents) \<in> set files2
                    \<and> (\<forall>dir\<in>set parents. \<not> shouldIgnorePath a' dir))"
    unfolding addsKept_def by blast
  have ig: "shouldIgnorePath a' = shouldIgnorePath a" using n1 by simp
  have "a'' = a\<lparr>App.Documents := App.Documents a @ (new1 @ new2)\<rparr>"
    using n1 n2 by simp
  moreover have "\<forall>doc\<in>set (new1 @ new2). \<not> shouldIgnorePath a (Document.Path doc)
              \<and> (\<exists>parents. (Document.Path doc, parents) \<in> set (files1 @ files2)
                    \<and> (\<forall>dir\<in>set parents. \<not> shouldIgnorePath a dir))"
    using k1 k2 unfolding ig by auto
  ultimately show ?thesis unfolding addsKept_def by blast
qed

lemma addsKept_left: "addsKept a files1 a' \<Longrightarrow> addsKept a (files1 @ files2) a'"
  using addsKept_trans [OF _ addsKept_refl] .

lemma addsKept_right: "addsKept a files2 a' \<Longrightarrow> addsKept a (files1 @ files2) a'"
  using addsKept_trans [OF addsKept_refl] .

text \<open>The walk, by induction along its recursion: from a path whose directories above
  are not ignored it adds only documents of files it would find there that are not
  ignored and have no ignored directory above them.\<close>

lemma walk_scan:
  fixes readFile rel rootDir sourceName fileRegex
  defines "fn \<equiv> scanFn readFile rel rootDir sourceName fileRegex"
  shows "\<forall>parents err a'. (\<forall>dir\<in>set parents. \<not> shouldIgnorePath a dir)
            \<longrightarrow> fn0 = fn \<longrightarrow> walk fn0 path node a = (err, a')
            \<longrightarrow> addsKept a (filesUnder path parents node) a'"
    and "\<forall>parents err a'. (\<forall>dir\<in>set parents. \<not> shouldIgnorePath a dir)
            \<longrightarrow> fn0 = fn \<longrightarrow> walkEntries fn0 path entries a = (err, a')
            \<longrightarrow> addsKept a (filesUnderEntries path parents entries) a'"
proof (induction fn0 path node a and fn0 path entries a rule: walk_walkEntries.induct)
  case (1 fn0 path n st)
  show ?case
  proof (intro allI impI)
    fix parents err a'
    assume ps: "\<forall>dir\<in>set parents. \<not> shouldIgnorePath st dir" and f: "fn0 = fn"
      and w: "walk fn0 path (File n) st = (err, a')"
    from w f have "scanFn readFile rel rootDir sourceName fileRegex path (Inr (n, False)) st
        = (err, a')" by (simp add: fn_def)
    from scanFn_file [OF this] show "addsKept st (filesUnder path parents (File n)) a'"
    proof
      assume "a' = st"
      then show ?thesis by (simp add: addsKept_refl)
    next
      assume "\<exists>doc. a' = st\<lparr>App.Documents := App.Documents st @ [doc]\<rparr>
                      \<and> Document.Path doc = path \<and> \<not> shouldIgnorePath st path"
      then obtain doc where "a' = st\<lparr>App.Documents := App.Documents st @ [doc]\<rparr>"
        "Document.Path doc = path" "\<not> shouldIgnorePath st path" by blast
      with ps show ?thesis by (intro addsKept_one [of _ _ doc parents]) auto
    qed
  qed
next
  case (2 fn0 path n st)
  show ?case by (auto simp: fn_def scanFn_def addsKept_refl)
next
  case (3 fn0 path n st)
  show ?case by (auto simp: fn_def scanFn_def addsKept_refl)
next
  case (4 fn0 path n entries st)
  show ?case
  proof (intro allI impI)
    fix parents err a'
    assume ps: "\<forall>dir\<in>set parents. \<not> shouldIgnorePath st dir" and f: "fn0 = fn"
      and w: "walk fn0 path (Dir n entries) st = (err, a')"
    obtain x y where xy: "fn0 path (Inr (n, True)) st = (x, y)" by fastforce
    with f have "scanFn readFile rel rootDir sourceName fileRegex path (Inr (n, True)) st
        = (x, y)" by (simp add: fn_def)
    from scanFn_dir [OF this] have y: "y = st" and ig: "x = None \<longrightarrow> \<not> shouldIgnorePath st path"
      by simp_all
    show "addsKept st (filesUnder path parents (Dir n entries)) a'"
    proof (cases x)
      case None
      with w xy y have we: "walkEntries fn0 path entries st = (err, a')" by simp
      from None ig ps have "\<forall>dir\<in>set (parents @ [path]). \<not> shouldIgnorePath st dir" by simp
      moreover from "4.IH" [OF xy [symmetric] None] y
      have "\<forall>parents err a'. (\<forall>dir\<in>set parents. \<not> shouldIgnorePath st dir)
            \<longrightarrow> fn0 = fn \<longrightarrow> walkEntries fn0 path entries st = (err, a')
            \<longrightarrow> addsKept st (filesUnderEntries path parents entries) a'" by simp
      ultimately show ?thesis using f we by simp
    next
      case (Some e)
      with w xy y show ?thesis by (simp add: addsKept_refl)
    qed
  qed
next
  case (5 fn0 path st)
  show ?case by (simp add: addsKept_refl)
next
  case (6 fn0 path e es st)
  show ?case
  proof (intro allI impI)
    fix parents err a'
    assume ps: "\<forall>dir\<in>set parents. \<not> shouldIgnorePath st dir" and f: "fn0 = fn"
      and w: "walkEntries fn0 path (e # es) st = (err, a')"
    let ?x = "filepath_Join path (entryName e)"
    show "addsKept st (filesUnderEntries path parents (e # es)) a'"
    proof (cases "isUnstat e")
      case True
      with w f have "a' = st" by (simp add: fn_def scanFn_def)
      then show ?thesis by (simp add: addsKept_refl)
    next
      case False
      obtain xa y where xy: "walk fn0 ?x e st = (xa, y)" by fastforce
      from "6.IH"(3) [OF refl False] ps f xy
      have k1: "addsKept st (filesUnder ?x parents e) y" by blast
      have ig: "shouldIgnorePath y = shouldIgnorePath st" using addsKept_ignore [OF k1] .
      have rest: "addsKept st (filesUnderEntries path parents (e # es)) a'"
        if "walkEntries fn0 path es y = (err, a')"
          and ih: "\<forall>parents err a'. (\<forall>dir\<in>set parents. \<not> shouldIgnorePath y dir)
            \<longrightarrow> fn0 = fn \<longrightarrow> walkEntries fn0 path es y = (err, a')
            \<longrightarrow> addsKept y (filesUnderEntries path parents es) a'"
      proof -
        from ih ps f that(1) have "addsKept y (filesUnderEntries path parents es) a'"
          unfolding ig by blast
        from addsKept_trans [OF k1 this] show ?thesis by simp
      qed
      show ?thesis
      proof (cases xa)
        case None
        with w xy False have "walkEntries fn0 path es y = (err, a')" by (simp add: Let_def)
        moreover note "6.IH"(4) [OF refl False xy [symmetric] None]
        ultimately show ?thesis by (rule rest)
      next
        case (Some x2)
        show ?thesis
        proof (cases "\<not> isDirNode e \<or> x2 \<noteq> SkipDir")
          case True
          with w xy False Some have "a' = y" by (simp add: Let_def)
          with k1 show ?thesis by (simp add: addsKept_left)
        next
          case stop: False
          with w xy False Some have "walkEntries fn0 path es y = (err, a')"
            by (simp add: Let_def)
          moreover note "6.IH"(5) [OF refl False xy [symmetric] Some stop]
          ultimately show ?thesis by (rule rest)
        qed
      qed
    qed
  qed
qed

text \<open>
  C1.  A scan of a directory only appends documents.  Every document it appends has a
  path that no ignore pattern matches, and is the document of a file below the root
  none of whose directories, from the root down, is matched by an ignore pattern.
  Where different files of the tree have different paths, no file whose path is
  ignored and no file with an ignored directory above it has a document among the new
  ones.  This holds for every list of compiled ignore patterns, every file pattern,
  every tree and every result of the walk, complete or ended by an error.
\<close>

theorem C1_ignored_paths_yield_no_document:
  "\<exists>new. snd (scanDirectory readFile rel tree a rootDir sourceName fileRegex)
          = a\<lparr>App.Documents := App.Documents a @ new\<rparr>
     \<and> (\<forall>doc\<in>set new.
           \<not> shouldIgnorePath a (Document.Path doc)
           \<and> (\<exists>parents. (Document.Path doc, parents) \<in> set (filesUnder rootDir [] tree)
                 \<and> (\<forall>dir\<in>set parents. \<not> shouldIgnorePath a dir)))
     \<and> (distinct (map fst (filesUnder rootDir [] tree)) \<longrightarrow>
          (\<forall>(path, parents)\<in>set (filesUnder rootDir [] tree).
             shouldIgnorePath a path \<or> (\<exists>dir\<in>set parents. shouldIgnorePath a dir)
             \<longrightarrow> path \<notin> Document.Path ` set new))"
proof -
  let ?fn = "scanFn readFile rel rootDir sourceName fileRegex"
  let ?files = "filesUnder rootDir [] tree"
  have "addsKept a ?files (snd (scanDirectory readFile rel tree a rootDir sourceName fileRegex))"
  proof (cases "isUnstat tree")
    case True
    then show ?thesis
      by (simp add: scanDirectory_def filepath_Walk_def scanFn_def addsKept_refl)
  next
    case False
    obtain err a' where w: "walk ?fn rootDir tree a = (err, a')" by fastforce
    from walk_scan(1) [of a ?fn readFile rel rootDir sourceName fileRegex rootDir tree] w
    have "addsKept a ?files a'" by simp
    moreover from False w
    have "snd (scanDirectory readFile rel tree a rootDir sourceName fileRegex) = a'"
      by (simp add: scanDirectory_def filepath_Walk_def split: option.splits)
    ultimately show ?thesis by simp
  qed
  then obtain new
    where n: "snd (scanDirectory readFile rel tree a rootDir sourceName fileRegex)
          = a\<lparr>App.Documents := App.Documents a @ new\<rparr>"
      and k: "\<forall>doc\<in>set new.
           \<not> shouldIgnorePath a (Document.Path doc)
           \<and> (\<exists>parents. (Document.Path doc, parents) \<in> set ?files
                 \<and> (\<forall>dir\<in>set parents. \<not> shouldIgnorePath a dir))"
    unfolding addsKept_def by blast
  have "\<forall>(path, parents)\<in>set ?files.
             shouldIgnorePath a path \<or> (\<exists>dir\<in>set parents. shouldIgnorePath a dir)
             \<longrightarrow> path \<notin> Document.Path ` set new"
    if d: "distinct (map fst ?files)"
  proof (intro ballI, clarify)
    fix parents doc
    assume m: "(Document.Path doc, parents) \<in> set ?files" and doc: "doc \<in> set new"
      and ig: "shouldIgnorePath a (Document.Path doc)
               \<or> (\<exists>dir\<in>set parents. shouldIgnorePath a dir)"
    from k doc obtain ps where "\<not> shouldIgnorePath a (Document.Path doc)"
      and ps: "(Document.Path doc, ps) \<in> set ?files" "\<forall>dir\<in>set ps. \<not> shouldIgnorePath a dir"
      by blast
    moreover from d m ps(1) have "parents = ps" by (rule eq_key_imp_eq_value)
    ultimately show False using ig by blast
  qed
  with n k show ?thesis by blast
qed

text \<open>An example: the file below the ignored directory \<open>docs/vendor\<close> has no document.\<close>

lemma example_scan:
  "map Document.Path (App.Documents (snd (scanDirectory (\<lambda>p. Some ''text'') filepath_Rel
       exampleTree exampleApp ''docs'' ''Docs'' (Some examplePattern)))) = [''docs/a.md'']"
  by code_simp

lemma example_files:
  "filesUnder ''docs'' [] exampleTree
     = [(''docs/a.md'', [''docs'']), (''docs/b.txt'', [''docs'']),
        (''docs/vendor/v.md'', [''docs'', ''docs/vendor''])]"
  by code_simp

lemma example_ignored: "shouldIgnorePath exampleApp ''docs/vendor''"
  by code_simp

theorem C1_ignored_paths_yield_no_document_witness:
  "map Document.Path (App.Documents (snd (scanDirectory (\<lambda>p. Some ''text'') filepath_Rel
       exampleTree exampleApp ''docs'' ''Docs'' (Some examplePattern)))) = [''docs/a.md'']
   \<and> (''docs/vendor/v.md'', [''docs'', ''docs/vendor'']) \<in> set (filesUnder ''docs'' [] exampleTree)
   \<and> shouldIgnorePath exampleApp ''docs/vendor''
   \<and> distinct (map fst (filesUnder ''docs'' [] exampleTree))
   \<and> ''docs/vendor/v.md'' \<notin> Document.Path ` set (App.Documents (snd (scanDirectory
       (\<lambda>p. Some ''text'') filepath_Rel exampleTree exampleApp ''docs'' ''Docs''
       (Some examplePattern))))"
proof -
  from C1_ignored_paths_yield_no_document [of "\<lambda>p. Some ''text''" filepath_Rel exampleTree
      exampleApp "''docs''" "''Docs''" "Some examplePattern"]
  obtain new where n: "snd (scanDirectory (\<lambda>p. Some ''text'') filepath_Rel
       exampleTree exampleApp ''docs'' ''Docs'' (Some examplePattern))
          = exampleApp\<lparr>App.Documents := App.Documents exampleApp @ new\<rparr>"
    and out: "distinct (map fst (filesUnder ''docs'' [] exampleTree)) \<longrightarrow>
          (\<forall>(path, parents)\<in>set (filesUnder ''docs'' [] exampleTree).
             shouldIgnorePath exampleApp path \<or> (\<exists>dir\<in>set parents. shouldIgnorePath exampleApp dir)
             \<longrightarrow> path \<notin> Document.Path ` set new)"
    by blast
  have e: "App.Documents exampleApp = []" by (simp add: exampleApp_def NewApp_def)
  have d: "distinct (map fst (filesUnder ''docs'' [] exampleTree))"
    unfolding example_files by simp
  have m: "(''docs/vendor/v.md'', [''docs'', ''docs/vendor'']) \<in> set (filesUnder ''docs'' [] exampleTree)"
    unfolding example_files by simp
  from out d m example_ignored have "''docs/vendor/v.md'' \<notin> Document.Path ` set new"
    by fastforce
  with n e d m example_scan example_ignored show ?thesis by simp
qed

section \<open>Properties of the directory trees\<close>

lemma groupLoop_lookup:
  "groupLoop docs groupMap name =
     (if \<exists>doc\<in>set docs. SourceName doc = name
      then Some ((case groupMap name of None \<Rightarrow> [] | Some ds \<Rightarrow> ds)
                 @ filter (\<lambda>doc. SourceName doc = name) docs)
      else groupMap name)"
  by (induction docs arbitrary: groupMap) auto

text \<open>Whatever the order of the keys, the tree of a source name is built from the
  documents of that name in the order of the document list.\<close>

lemma BuildDirectoryTrees_map:
  assumes "set order \<subseteq> SourceName ` set (App.Documents a)"
  shows "BuildDirectoryTrees rel order a =
     map (\<lambda>sourceName.
            \<lparr>DirectoryTree.Name = sourceName,
             Root = treeLoop rel (filter (\<lambda>doc. SourceName doc = sourceName) (App.Documents a))
                      (TreeNode sourceName [] False None [] True)\<rparr>) order"
  using assms
proof (induction order)
  case Nil
  then show ?case by (simp add: BuildDirectoryTrees_def)
next
  case (Cons n ns)
  from Cons.prems have "\<exists>doc\<in>set (App.Documents a). SourceName doc = n" by auto
  moreover from Cons have "BuildDirectoryTrees rel ns a =
     map (\<lambda>sourceName.
            \<lparr>DirectoryTree.Name = sourceName,
             Root = treeLoop rel (filter (\<lambda>doc. SourceName doc = sourceName) (App.Documents a))
                      (TreeNode sourceName [] False None [] True)\<rparr>) ns" by simp
  ultimately show ?case
    by (simp add: BuildDirectoryTrees_def Let_def groupLoop_lookup)
qed

text \<open>
  C8.  Two calls of \<open>BuildDirectoryTrees\<close> on the same documents differ at most in the
  order in which the map of the groups is run through.  For any two such orders the
  results hold the same trees, each once: trees of the same name are equal, with the
  same nodes, the same order of children and the same documents at the file nodes,
  and there is one tree for each source name.  This holds whatever \<open>filepath.Rel\<close>
  returns.
\<close>

theorem C8_trees_do_not_depend_on_order:
  assumes "distinct order1" and "set order1 = SourceName ` set (App.Documents a)"
    and "distinct order2" and "set order2 = SourceName ` set (App.Documents a)"
  shows "mset (BuildDirectoryTrees rel order1 a) = mset (BuildDirectoryTrees rel order2 a)
     \<and> (\<forall>tree1\<in>set (BuildDirectoryTrees rel order1 a).
          \<forall>tree2\<in>set (BuildDirectoryTrees rel order2 a).
            DirectoryTree.Name tree1 = DirectoryTree.Name tree2 \<longrightarrow> tree1 = tree2)
     \<and> map DirectoryTree.Name (BuildDirectoryTrees rel order1 a) = order1"
proof -
  let ?f = "\<lambda>sourceName.
            \<lparr>DirectoryTree.Name = sourceName,
             Root = treeLoop rel (filter (\<lambda>doc. SourceName doc = sourceName) (App.Documents a))
                      (TreeNode sourceName [] False None [] True)\<rparr>"
  have b1: "BuildDirectoryTrees rel order1 a = map ?f order1"
    using assms(2) by (intro BuildDirectoryTrees_map) simp
  have b2: "BuildDirectoryTrees rel order2 a = map ?f order2"
    using assms(4) by (intro BuildDirectoryTrees_map) simp
  have m: "mset order1 = mset order2"
    using assms by (simp add: set_eq_iff_mset_eq_distinct [symmetric])
  have c1: "mset (map ?f order1) = mset (map ?f order2)"
    unfolding mset_map m ..
  have c2: "\<forall>tree1\<in>set (map ?f order1). \<forall>tree2\<in>set (map ?f order2).
            DirectoryTree.Name tree1 = DirectoryTree.Name tree2 \<longrightarrow> tree1 = tree2"
  proof (intro ballI impI)
    fix tree1 tree2
    assume "tree1 \<in> set (map ?f order1)" and "tree2 \<in> set (map ?f order2)"
    then obtain n1 n2 where t: "tree1 = ?f n1" "tree2 = ?f n2"
      by (auto simp only: set_map image_iff)
    assume "DirectoryTree.Name tree1 = DirectoryTree.Name tree2"
    with t have "n1 = n2" by simp
    with t show "tree1 = tree2" by simp
  qed
  have c3: "map DirectoryTree.Name (map ?f order1) = order1"
    by (simp add: comp_def)
  show ?thesis unfolding b1 b2 using c1 c2 c3 by (intro conjI)
qed

theorem C8_trees_do_not_depend_on_order_witness:
  "mset (BuildDirectoryTrees filepath_Rel [''Docs'', ''Api'']
      (NewApp\<lparr>App.Documents :=
         [exampleDoc ''X'' ''b/x.md'' [], (exampleDoc ''Y'' ''a/y.md'' [])\<lparr>SourceName := ''Api''\<rparr>,
          exampleDoc ''Z'' ''a/z.md'' []]\<rparr>))
   = mset (BuildDirectoryTrees filepath_Rel [''Api'', ''Docs'']
      (NewApp\<lparr>App.Documents :=
         [exampleDoc ''X'' ''b/x.md'' [], (exampleDoc ''Y'' ''a/y.md'' [])\<lparr>SourceName := ''Api''\<rparr>,
          exampleDoc ''Z'' ''a/z.md'' []]\<rparr>))
   \<and> map DirectoryTree.Name (BuildDirectoryTrees filepath_Rel [''Docs'', ''Api'']
      (NewApp\<lparr>App.Documents :=
         [exampleDoc ''X'' ''b/x.md'' [], (exampleDoc ''Y'' ''a/y.md'' [])\<lparr>SourceName := ''Api''\<rparr>,
          exampleDoc ''Z'' ''a/z.md'' []]\<rparr>)) = [''Docs'', ''Api'']"
proof -
  have d1: "distinct [''Docs'', ''Api'']" and d2: "distinct [''Api'', ''Docs'']"
    by simp_all
  have s1: "set [''Docs'', ''Api''] = SourceName ` set (App.Documents
      (NewApp\<lparr>App.Documents :=
         [exampleDoc ''X'' ''b/x.md'' [], (exampleDoc ''Y'' ''a/y.md'' [])\<lparr>SourceName := ''Api''\<rparr>,
          exampleDoc ''Z'' ''a/z.md'' []]\<rparr>))"
    by (auto simp: exampleDoc_def NewApp_def)
  have s2: "set [''Api'', ''Docs''] = SourceName ` set (App.Documents
      (NewApp\<lparr>App.Documents :=
         [exampleDoc ''X'' ''b/x.md'' [], (exampleDoc ''Y'' ''a/y.md'' [])\<lparr>SourceName := ''Api''\<rparr>,
          exampleDoc ''Z'' ''a/z.md'' []]\<rparr>))"
    by (auto simp: exampleDoc_def NewApp_def)
  from C8_trees_do_not_depend_on_order [OF d1 s1 d2 s2, of filepath_Rel]
  show ?thesis by blast
qed

text \<open>Children stand in the order in which the documents first name them, not in the
  order of the alphabet.\<close>

lemma example_first_seen_order:
  "BuildDirectoryTrees filepath_Rel [''Docs'']
      (NewApp\<lparr>App.Documents := [exampleDoc ''X'' ''b/x.md'' [], exampleDoc ''Z'' ''a/z.md'' [],
                                 exampleDoc ''W'' ''b/w.md'' []]\<rparr>)
   = [\<lparr>DirectoryTree.Name = ''Docs'',
       Root = TreeNode ''Docs'' [] False None
         [TreeNode ''b'' ''b'' False None
            [TreeNode ''x.md'' ''b/x.md'' True (Some (exampleDoc ''X'' ''b/x.md'' [])) [] False,
             TreeNode ''w.md'' ''b/w.md'' True (Some (exampleDoc ''W'' ''b/w.md'' [])) [] False]
            False,
          TreeNode ''a'' ''a'' False None
            [TreeNode ''z.md'' ''a/z.md'' True (Some (exampleDoc ''Z'' ''a/z.md'' [])) [] False]
            False]
         True\<rparr>]"
  by code_simp

section \<open>Properties of loading contents\<close>










section \<open>Properties of the search\<close>

lemma encodeRune_nonempty: "encodeRune r \<noteq> []"
  by (simp add: encodeRune_def)

lemma runesLoop_nonempty: "runesLoop 0 (c # cs) \<noteq> []"
  by (cases "runeSize (c # cs)") simp_all

lemma ToLower_empty_iff: "strings_ToLower lowerTable s = [] \<longleftrightarrow> s = []"
proof (cases s)
  case Nil
  then show ?thesis by (simp add: strings_ToLower_def)
next
  case (Cons c cs)
  obtain r rs where "runesLoop 0 (c # cs) = r # rs"
    using runesLoop_nonempty [of c cs] by (cases "runesLoop 0 (c # cs)") auto
  with Cons show ?thesis
    by (simp add: strings_ToLower_def encodeRune_nonempty)
qed

text \<open>
  C7 (as the code has it).  A query that is empty after \<open>strings.TrimSpace\<close> finds
  nothing and changes nothing.  Any other query is trimmed and put in lower case; where
  the cache is in use the documents without content are first loaded from their paths;
  the result is exactly the documents, in order, of which the Title, the Content or the
  Overview, put in lower case, contains that query.  \<open>lowerTable\<close> is the case table of
  \<open>strings.ToLower\<close>.
\<close>

theorem C7_search_trimmed_query:
  "handleSearch lowerTable readFile a q =
     (if strings_TrimSpace q = [] then (Results [], a)
      else
        (let docs = (if UseCache a then loadLoop readFile (App.Documents a)
                     else App.Documents a);
             query = strings_ToLower lowerTable (strings_TrimSpace q)
         in (Results (filter (\<lambda>doc.
                (\<exists>pre post. strings_ToLower lowerTable (Document.Title doc) = pre @ query @ post)
                \<or> (\<exists>pre post. strings_ToLower lowerTable (Document.Content doc)
                                  = pre @ query @ post)
                \<or> (\<exists>pre post. strings_ToLower lowerTable (Document.Overview doc)
                                  = pre @ query @ post)) docs),
             a\<lparr>App.Documents := docs\<rparr>)))"
  by (simp add: handleSearch_def Let_def ToLower_empty_iff Contains_iff)

text \<open>The example of the specification: the query \<open>setup\<close> finds both documents, the
  empty query none.\<close>

lemma example_search:
  "fst (handleSearch (\<lambda>r. r) exampleFiles
          (NewApp\<lparr>App.Documents := [exampleDoc ''Setup Guide'' ''setup.md'' ''Install steps'',
                                    exampleDoc ''FAQ'' ''faq.md'' ''Setup questions'']\<rparr>) ''setup'')
     = Results [exampleDoc ''Setup Guide'' ''setup.md'' ''Install steps'',
                exampleDoc ''FAQ'' ''faq.md'' ''Setup questions'']
   \<and> fst (handleSearch (\<lambda>r. r) exampleFiles
          (NewApp\<lparr>App.Documents := [exampleDoc ''Setup Guide'' ''setup.md'' ''Install steps'',
                                    exampleDoc ''FAQ'' ''faq.md'' ''Setup questions'']\<rparr>) [])
     = Results []"
  by code_simp

text \<open>
  C7 (as it is stated) fails for the query of a blank followed by \<open>setup\<close>: no field of
  the document titled \<open>Setup Guide\<close> contains this query, with its blank, in any case, so
  the search as described finds nothing; \<open>handleSearch\<close> trims the query and returns
  the document.
\<close>

theorem C7_query_with_blank_counterexample:
  "fst (handleSearch (\<lambda>r. r) exampleFiles
          (NewApp\<lparr>App.Documents := [exampleDoc ''Setup Guide'' ''setup.md'' ''Install steps'']\<rparr>)
          '' setup'')
     = Results [exampleDoc ''Setup Guide'' ''setup.md'' ''Install steps'']
   \<and> search_described (\<lambda>r. r)
         [exampleDoc ''Setup Guide'' ''setup.md'' ''Install steps''] '' setup'' = []"
  by code_simp

section \<open>Properties of the cache\<close>

lemma coerceLoop_valid: "validLoop k s \<Longrightarrow> coerceLoop k s = s"
proof (induction k s rule: coerceLoop.induct)
  case (1 k)
  then show ?case by simp
next
  case (2 k c cs)
  then show ?case by simp
next
  case (3 c cs)
  then show ?case by (cases "runeSize (c # cs)") simp_all
qed

lemma jsonString_valid: "utf8_ValidString s \<Longrightarrow> jsonString s = s"
  by (simp add: utf8_ValidString_def jsonString_def coerceLoop_valid)

text \<open>What comes back from the cache, for any documents.\<close>

lemma save_then_load:
  "saveToCache version True a file
     = (None, Some (jsonCacheData
         \<lparr>CacheData.Documents = map (\<lambda>doc.
            \<lparr>CachedDocument.Title = Document.Title doc,
             Path = Document.Path doc,
             RelPath = Document.RelPath doc,
             DirName = Document.DirName doc,
             SourceDir = Document.SourceDir doc,
             SourceName = Document.SourceName doc,
             AbsPath = Document.AbsPath doc,
             Overview = Document.Overview doc\<rparr>) (App.Documents a),
          Version = version\<rparr>))
   \<and> snd (loadFromCache (snd (saveToCache version True a file)) b)
     = b\<lparr>App.Documents := map (\<lambda>doc.
            \<lparr>Document.Title = jsonString (Document.Title doc),
             Path = jsonString (Document.Path doc),
             Content = [],
             RelPath = jsonString (Document.RelPath doc),
             DirName = jsonString (Document.DirName doc),
             SourceDir = jsonString (Document.SourceDir doc),
             SourceName = jsonString (Document.SourceName doc),
             AbsPath = jsonString (Document.AbsPath doc),
             Overview = jsonString (Document.Overview doc)\<rparr>) (App.Documents a)\<rparr>
   \<and> fst (loadFromCache (snd (saveToCache version True a file)) b) = None"
  by (simp add: saveToCache_def loadFromCache_def jsonCacheData_def jsonCachedDocument_def
      comp_def)

text \<open>
  C2 (as the code has it).  For documents whose stored fields are valid UTF-8, saving
  succeeds where the file can be written, and loading what was saved gives the same
  documents in the same order with the Content empty and every other field as it was.
\<close>

theorem C2_cache_roundtrip_valid_utf8:
  assumes "\<forall>doc\<in>set (App.Documents a). validFields doc"
  shows "\<exists>file'. saveToCache version True a file = (None, Some file')
           \<and> loadFromCache (Some file') b
               = (None, b\<lparr>App.Documents :=
                            map (\<lambda>doc. doc\<lparr>Document.Content := []\<rparr>) (App.Documents a)\<rparr>)"
proof -
  have "map (\<lambda>doc.
            \<lparr>Document.Title = jsonString (Document.Title doc),
             Path = jsonString (Document.Path doc),
             Content = [],
             RelPath = jsonString (Document.RelPath doc),
             DirName = jsonString (Document.DirName doc),
             SourceDir = jsonString (Document.SourceDir doc),
             SourceName = jsonString (Document.SourceName doc),
             AbsPath = jsonString (Document.AbsPath doc),
             Overview = jsonString (Document.Overview doc)\<rparr>) (App.Documents a)
        = map (\<lambda>doc. doc\<lparr>Document.Content := []\<rparr>) (App.Documents a)"
    using assms by (intro map_cong refl) (simp add: validFields_def jsonString_valid)
  with save_then_load [of version a "file" b] show ?thesis
    by (cases "loadFromCache (snd (saveToCache version True a file)) b") auto
qed

lemma example_valid: "validFields (exampleDoc (''Caf'' @ [CHR 0xC3, CHR 0xA9]) ''cafe.md'' ''text'')"
  by code_simp

theorem C2_cache_roundtrip_valid_utf8_witness:
  "\<exists>file'. saveToCache ''dev'' True
       (NewApp\<lparr>App.Documents := [exampleDoc (''Caf'' @ [CHR 0xC3, CHR 0xA9]) ''cafe.md'' ''text'']\<rparr>)
       None = (None, Some file')
     \<and> loadFromCache (Some file') NewApp
         = (None, NewApp\<lparr>App.Documents :=
                     [exampleDoc (''Caf'' @ [CHR 0xC3, CHR 0xA9]) ''cafe.md'' []]\<rparr>)"
  using C2_cache_roundtrip_valid_utf8 [of
      "NewApp\<lparr>App.Documents := [exampleDoc (''Caf'' @ [CHR 0xC3, CHR 0xA9]) ''cafe.md'' ''text'']\<rparr>"
      "''dev''" None NewApp] example_valid
  by (simp add: NewApp_def exampleDoc_def)

text \<open>
  C2 (as it is stated) fails for a document whose title is \<open>Caf\<close> followed by the byte
  E9, as a heading of a file in Latin-1 gives it: the title that is loaded ends in the
  three bytes of U+FFFD.
\<close>

theorem C2_invalid_utf8_counterexample:
  "map Document.Title (App.Documents (snd (loadFromCache
      (snd (saveToCache ''dev'' True
         (NewApp\<lparr>App.Documents := [exampleDoc (''Caf'' @ [CHR 0xE9]) ''cafe.md'' ''text'']\<rparr>) None))
      NewApp)))
   = [''Caf'' @ [CHR 0xEF, CHR 0xBF, CHR 0xBD]]"
  by code_simp

end
